theory Spec2Isabelle
  imports Complex_Main
begin

section \<open>GLSL values\<close>

text \<open>
  The simulation of \<^verbatim>\<open>static/js/fluid.js\<close> runs as fragment programs over
  floating-point textures. The embedding computes in the real numbers: a texel is a
  \<open>vec4\<close> of reals, and the rounding of the 16-bit storage formats is not modelled.
\<close>

type_synonym vec2 = "real \<times> real"
type_synonym vec4 = "real \<times> real \<times> real \<times> real"

fun vec2_add :: "vec2 \<Rightarrow> vec2 \<Rightarrow> vec2" where
  "vec2_add (a, b) (c, d) = (a + c, b + d)"

fun vec2_sub :: "vec2 \<Rightarrow> vec2 \<Rightarrow> vec2" where
  "vec2_sub (a, b) (c, d) = (a - c, b - d)"

fun vec2_scale :: "vec2 \<Rightarrow> real \<Rightarrow> vec2" where
  "vec2_scale (a, b) k = (a * k, b * k)"

fun vec2_mul :: "vec2 \<Rightarrow> vec2 \<Rightarrow> vec2" where
  "vec2_mul (a, b) (c, d) = (a * c, b * d)"

fun distance :: "vec2 \<Rightarrow> vec2 \<Rightarrow> real" where
  "distance (a, b) (c, d) = sqrt ((a - c) * (a - c) + (b - d) * (b - d))"

fun vec4_add :: "vec4 \<Rightarrow> vec4 \<Rightarrow> vec4" where
  "vec4_add (a, b, c, d) (e, f, g, h) = (a + e, b + f, c + g, d + h)"

fun vec4_scale :: "vec4 \<Rightarrow> real \<Rightarrow> vec4" where
  "vec4_scale (a, b, c, d) k = (a * k, b * k, c * k, d * k)"

fun x_of :: "vec4 \<Rightarrow> real" where
  "x_of (a, b, c, d) = a"

fun y_of :: "vec4 \<Rightarrow> real" where
  "y_of (a, b, c, d) = b"

fun xy_of :: "vec4 \<Rightarrow> vec2" where
  "xy_of (a, b, c, d) = (a, b)"

section \<open>Textures and the WebGL context\<close>

datatype internalFormat = RGBA16F | RG16F | R16F

datatype texFilter = LINEAR | NEAREST

text \<open>
  What a texture of the given internal format keeps of a written colour, as a later
  read returns it: channels the format does not store read as 0, and alpha as 1.
\<close>

fun store_fmt :: "internalFormat \<Rightarrow> vec4 \<Rightarrow> vec4" where
  "store_fmt RGBA16F (r, g, b, a) = (r, g, b, a)"
| "store_fmt RG16F (r, g, b, a) = (r, g, 0, 1)"
| "store_fmt R16F (r, g, b, a) = (r, 0, 0, 1)"

record texture =
  tex_w :: int
  tex_h :: int
  tex_format :: internalFormat
  tex_filter :: texFilter
  texels :: "int \<Rightarrow> int \<Rightarrow> vec4"

definition in_grid :: "int \<Rightarrow> int \<Rightarrow> int \<Rightarrow> int \<Rightarrow> bool" where
  "in_grid w h i j \<longleftrightarrow> 0 \<le> i \<and> i < w \<and> 0 \<le> j \<and> j < h"

text \<open>\<^verbatim>\<open>TEXTURE_WRAP_S/T = CLAMP_TO_EDGE\<close>, set by \<^verbatim>\<open>createFBO\<close> on every texture.\<close>

definition clamp_to_edge :: "int \<Rightarrow> int \<Rightarrow> int" where
  "clamp_to_edge n i = max 0 (min (n - 1) i)"

definition texelFetch :: "texture \<Rightarrow> int \<Rightarrow> int \<Rightarrow> vec4" where
  "texelFetch t i j = texels t (clamp_to_edge (tex_w t) i) (clamp_to_edge (tex_h t) j)"

text \<open>
  GLSL \<^verbatim>\<open>texture(sampler, uv)\<close> on a texture without mipmaps: the nearest texel, or
  the bilinear blend of the four texels around \<open>uv\<close>, both with clamp-to-edge.
\<close>

definition sample :: "texture \<Rightarrow> vec2 \<Rightarrow> vec4" where
  "sample t uv =
     (case tex_filter t of
        NEAREST \<Rightarrow>
          texelFetch t \<lfloor>fst uv * real_of_int (tex_w t)\<rfloor> \<lfloor>snd uv * real_of_int (tex_h t)\<rfloor>
      | LINEAR \<Rightarrow>
          (let x = fst uv * real_of_int (tex_w t) - 1 / 2;
               y = snd uv * real_of_int (tex_h t) - 1 / 2;
               i = \<lfloor>x\<rfloor>; j = \<lfloor>y\<rfloor>;
               a = x - real_of_int i; b = y - real_of_int j
           in vec4_add
                (vec4_scale (vec4_add (vec4_scale (texelFetch t i j) (1 - a))
                                      (vec4_scale (texelFetch t (i + 1) j) a)) (1 - b))
                (vec4_scale (vec4_add (vec4_scale (texelFetch t i (j + 1)) (1 - a))
                                      (vec4_scale (texelFetch t (i + 1) (j + 1)) a)) b)))"

text \<open>
  The state of the WebGL2 context that the simulation can observe: the texture and
  framebuffer objects by handle, the viewport, the default framebuffer (the canvas),
  the number of draw and clear commands issued so far, and whether the extension
  \<^verbatim>\<open>EXT_color_buffer_float\<close> is enabled on the context. The three internal formats
  used here are colour-renderable only with that extension: without it a framebuffer
  object with such a texture attached is incomplete, and a draw or a clear on it raises
  \<^verbatim>\<open>INVALID_FRAMEBUFFER_OPERATION\<close> inside WebGL (not a JavaScript exception) and
  writes nothing.
\<close>

record gl_state =
  textures :: "nat \<rightharpoonup> texture"
  framebuffers :: "nat \<rightharpoonup> nat"
  next_handle :: nat
  viewport :: "int \<times> int"
  screen :: "int \<Rightarrow> int \<Rightarrow> vec4"
  draw_calls :: nat
  clear_calls :: nat
  color_buffer_float :: bool

text \<open>Sampling a texture name with no texture object behind it yields opaque black.\<close>

definition null_texture :: texture where
  "null_texture =
     \<lparr>tex_w = 1, tex_h = 1, tex_format = RGBA16F, tex_filter = NEAREST,
      texels = (\<lambda>i j. (0, 0, 0, 1))\<rparr>"

definition bound_texture :: "gl_state \<Rightarrow> nat \<Rightarrow> texture" where
  "bound_texture g t = (case textures g t of Some x \<Rightarrow> x | None \<Rightarrow> null_texture)"

text \<open>
  The vertex program \<^verbatim>\<open>baseVert\<close> maps the full-screen quad to \<open>vUv \<in> [0,1]\<^sup>2\<close>; the
  fragment of pixel \<open>(i, j)\<close> of a \<open>w \<times> h\<close> viewport is shaded at its centre.
\<close>

definition pixel_uv :: "int \<Rightarrow> int \<Rightarrow> int \<Rightarrow> int \<Rightarrow> vec2" where
  "pixel_uv w h i j =
     ((real_of_int i + 1 / 2) / real_of_int w, (real_of_int j + 1 / 2) / real_of_int h)"

definition draw_texture :: "int \<times> int \<Rightarrow> (vec2 \<Rightarrow> vec4) \<Rightarrow> texture \<Rightarrow> texture" where
  "draw_texture vp frag t =
     t\<lparr>texels := (\<lambda>i j.
          if in_grid (tex_w t) (tex_h t) i j \<and> in_grid (fst vp) (snd vp) i j
          then store_fmt (tex_format t) (frag (pixel_uv (fst vp) (snd vp) i j))
          else texels t i j)\<rparr>"

text \<open>
  \<^verbatim>\<open>gl.bindFramebuffer(gl.FRAMEBUFFER, target)\<close> followed by \<^verbatim>\<open>bindAndDraw(prg, uniforms)\<close>:
  one \<^verbatim>\<open>drawArrays\<close> of the quad with the fragment program \<open>frag\<close>. The target
  \<open>None\<close> is the default framebuffer, which is always complete. A draw into a
  framebuffer object is counted, and writes its attachment only when the context can
  render into it.
\<close>

definition bindAndDraw :: "nat option \<Rightarrow> (vec2 \<Rightarrow> vec4) \<Rightarrow> gl_state \<Rightarrow> gl_state" where
  "bindAndDraw target frag g =
     (let g' = g\<lparr>draw_calls := draw_calls g + 1\<rparr> in
      case target of
        None \<Rightarrow>
          g'\<lparr>screen := (\<lambda>i j.
                if in_grid (fst (viewport g)) (snd (viewport g)) i j
                then frag (pixel_uv (fst (viewport g)) (snd (viewport g)) i j)
                else screen g i j)\<rparr>
      | Some f \<Rightarrow>
          (case framebuffers g f of
             None \<Rightarrow> g'
           | Some t \<Rightarrow>
               (case textures g t of
                  None \<Rightarrow> g'
                | Some x \<Rightarrow>
                    if color_buffer_float g
                    then g'\<lparr>textures := (textures g)(t \<mapsto> draw_texture (viewport g) frag x)\<rparr>
                    else g')))"

text \<open>
  \<^verbatim>\<open>gl.bindFramebuffer(gl.FRAMEBUFFER, f); gl.clearColor(r,g,b,a); gl.clear(gl.COLOR_BUFFER_BIT)\<close>
  (no scissor test is enabled, so the whole attachment is cleared, when the context can
  render into it).
\<close>

definition clearTo :: "nat \<Rightarrow> vec4 \<Rightarrow> gl_state \<Rightarrow> gl_state" where
  "clearTo f c g =
     (let g' = g\<lparr>clear_calls := clear_calls g + 1\<rparr> in
      case framebuffers g f of
        None \<Rightarrow> g'
      | Some t \<Rightarrow>
          (case textures g t of
             None \<Rightarrow> g'
           | Some x \<Rightarrow>
               if color_buffer_float g
               then g'\<lparr>textures := (textures g)(t \<mapsto>
                      x\<lparr>texels := (\<lambda>i j. if in_grid (tex_w x) (tex_h x) i j
                                          then store_fmt (tex_format x) c
                                          else texels x i j)\<rparr>)\<rparr>
               else g'))"

section \<open>Framebuffer objects and double buffering\<close>

text \<open>
  The object \<^verbatim>\<open>{ tex, fbo, w, h }\<close> returned by \<^verbatim>\<open>createFBO\<close>; \<open>tex\<close> and \<open>fbo\<close> are
  the handles of the texture and of the framebuffer object it is attached to.
\<close>

record fbo_rec =
  tex :: nat
  fbo :: nat
  fbo_w :: int
  fbo_h :: int

text \<open>
  \<^verbatim>\<open>createFBO(gl, w, h, internalFormat, format, type, filter)\<close>. \<^verbatim>\<open>texImage2D\<close> with a
  \<^verbatim>\<open>null\<close> source allocates zero-filled storage; \<open>format\<close> and \<open>type\<close> describe only the
  (absent) upload data. \<^verbatim>\<open>createTexture\<close> and \<^verbatim>\<open>createFramebuffer\<close> return fresh objects.
\<close>

definition createFBO ::
  "gl_state \<Rightarrow> int \<Rightarrow> int \<Rightarrow> internalFormat \<Rightarrow> texFilter \<Rightarrow> fbo_rec \<times> gl_state" where
  "createFBO g w h internalFormat filter_mode =
     (let t = next_handle g; f = next_handle g + 1 in
      (\<lparr>tex = t, fbo = f, fbo_w = w, fbo_h = h\<rparr>,
       g\<lparr>textures := (textures g)(t \<mapsto>
            \<lparr>tex_w = w, tex_h = h, tex_format = internalFormat, tex_filter = filter_mode,
             texels = (\<lambda>i j. store_fmt internalFormat (0, 0, 0, 0))\<rparr>),
         framebuffers := (framebuffers g)(f \<mapsto> t),
         next_handle := next_handle g + 2,
         viewport := (w, h)\<rparr>))"

record doubleFBO =
  fbo1 :: fbo_rec
  fbo2 :: fbo_rec

definition createDoubleFBO ::
  "gl_state \<Rightarrow> int \<Rightarrow> int \<Rightarrow> internalFormat \<Rightarrow> texFilter \<Rightarrow> doubleFBO \<times> gl_state" where
  "createDoubleFBO g w h internalFormat filter_mode =
     (let (a, g1) = createFBO g w h internalFormat filter_mode;
          (b, g2) = createFBO g1 w h internalFormat filter_mode
      in (\<lparr>fbo1 = a, fbo2 = b\<rparr>, g2))"

text \<open>The getters \<^verbatim>\<open>read\<close> and \<^verbatim>\<open>write\<close>: always the first and the second object.\<close>

definition read_fbo :: "doubleFBO \<Rightarrow> fbo_rec" where
  "read_fbo d = fbo1 d"

definition write_fbo :: "doubleFBO \<Rightarrow> fbo_rec" where
  "write_fbo d = fbo2 d"

text \<open>\<^verbatim>\<open>swap()\<close> exchanges the \<open>tex\<close> and \<open>fbo\<close> members of the two objects.\<close>

definition swap :: "doubleFBO \<Rightarrow> doubleFBO" where
  "swap d =
     \<lparr>fbo1 = (fbo1 d)\<lparr>tex := tex (fbo2 d), fbo := fbo (fbo2 d)\<rparr>,
      fbo2 = (fbo2 d)\<lparr>tex := tex (fbo1 d), fbo := fbo (fbo1 d)\<rparr>\<rparr>"

section \<open>The fragment programs\<close>

text \<open>
  Each fragment program is a function of its uniforms (a sampler is the texture bound
  to it) and of the varying \<open>vUv\<close>; the result is the output colour \<open>o\<close>.
\<close>

definition advectFrag :: "texture \<Rightarrow> texture \<Rightarrow> vec2 \<Rightarrow> real \<Rightarrow> vec2 \<Rightarrow> vec4" where
  "advectFrag uSrc uVel uTexel uDt vUv =
     (let v = vec2_scale (xy_of (sample uVel vUv)) 1;
          coord = vec2_sub vUv (vec2_mul (vec2_scale v uDt) uTexel)
      in sample uSrc coord)"

definition divergenceFrag :: "texture \<Rightarrow> vec2 \<Rightarrow> vec2 \<Rightarrow> vec4" where
  "divergenceFrag uVel uTexel vUv =
     (let L = x_of (sample uVel (vec2_sub vUv (fst uTexel, 0)));
          R = x_of (sample uVel (vec2_add vUv (fst uTexel, 0)));
          B = y_of (sample uVel (vec2_sub vUv (0, snd uTexel)));
          T = y_of (sample uVel (vec2_add vUv (0, snd uTexel)));
          dv = 0.5 * ((R - L) + (T - B))
      in (dv, 0, 0, 1))"

definition clearFrag :: "texture \<Rightarrow> real \<Rightarrow> vec2 \<Rightarrow> vec4" where
  "clearFrag uTex uDissipation vUv = (let c = sample uTex vUv in vec4_scale c uDissipation)"

definition pressureFrag :: "texture \<Rightarrow> texture \<Rightarrow> vec2 \<Rightarrow> vec2 \<Rightarrow> vec4" where
  "pressureFrag uPressure uDivergence uTexel vUv =
     (let L = x_of (sample uPressure (vec2_sub vUv (fst uTexel, 0)));
          R = x_of (sample uPressure (vec2_add vUv (fst uTexel, 0)));
          B = x_of (sample uPressure (vec2_sub vUv (0, snd uTexel)));
          T = x_of (sample uPressure (vec2_add vUv (0, snd uTexel)));
          dv = x_of (sample uDivergence vUv);
          p = (L + R + B + T - dv) * 0.25
      in (p, 0, 0, 1))"

definition gradientSubtractFrag :: "texture \<Rightarrow> texture \<Rightarrow> vec2 \<Rightarrow> vec2 \<Rightarrow> vec4" where
  "gradientSubtractFrag uVel uPressure uTexel vUv =
     (let L = x_of (sample uPressure (vec2_sub vUv (fst uTexel, 0)));
          R = x_of (sample uPressure (vec2_add vUv (fst uTexel, 0)));
          B = x_of (sample uPressure (vec2_sub vUv (0, snd uTexel)));
          T = x_of (sample uPressure (vec2_add vUv (0, snd uTexel)));
          grad = vec2_scale (R - L, T - B) 0.5;
          v = vec2_sub (xy_of (sample uVel vUv)) grad
      in (fst v, snd v, 0, 1))"

text \<open>The Gaussian weight \<open>a\<close> shared by the two splat programs.\<close>

definition splat_falloff :: "vec2 \<Rightarrow> real \<Rightarrow> vec2 \<Rightarrow> real" where
  "splat_falloff uPoint uRadius p =
     (let d = distance p uPoint in exp (- (d * d) / max (1 / 1000000) (uRadius * uRadius)))"

definition splatFrag :: "texture \<Rightarrow> vec2 \<Rightarrow> real \<times> real \<times> real \<Rightarrow> real \<Rightarrow> vec2 \<Rightarrow> vec4" where
  "splatFrag uTarget uPoint uColor uRadius vUv =
     (let a = splat_falloff uPoint uRadius vUv;
          base = sample uTarget vUv
      in case uColor of (r, g, b) \<Rightarrow> vec4_add base (r * a, g * a, b * a, a))"

definition splatVelFrag :: "texture \<Rightarrow> vec2 \<Rightarrow> vec2 \<Rightarrow> real \<Rightarrow> vec2 \<Rightarrow> vec4" where
  "splatVelFrag uTarget uPoint uForce uRadius vUv =
     (let a = splat_falloff uPoint uRadius vUv;
          v = vec2_add (xy_of (sample uTarget vUv)) (vec2_scale uForce a)
      in (fst v, snd v, 0, 1))"

definition displayFrag :: "texture \<Rightarrow> vec2 \<Rightarrow> vec4" where
  "displayFrag uDye vUv = sample uDye vUv"

section \<open>The simulation state\<close>

text \<open>
  What the code reads from the browser at a call: the clock, the device pixel ratio,
  the layout size of the canvas, the visibility of the document, and what the WebGL
  implementation offers (a \<^verbatim>\<open>webgl2\<close> context, the two extensions, and whether a
  shader, named by its source constant, compiles and links).
\<close>

record browser =
  now :: real
  devicePixelRatio :: real
  clientWidth :: int
  clientHeight :: int
  hidden :: bool
  webgl2 :: bool
  EXT_color_buffer_float :: bool
  OES_texture_float_linear :: bool
  compiles :: "string \<Rightarrow> bool"
  links :: "string \<Rightarrow> bool"

text \<open>
  The host page: the number of canvases appended to the container, and the number of
  frame callbacks pending in \<^verbatim>\<open>requestAnimationFrame\<close>.
\<close>

record host_page =
  container_children :: nat
  raf_pending :: nat

datatype error = Error string | TypeError

text \<open>
  The four variables \<^verbatim>\<open>let dye, velocity, pressure, divergence\<close>; they are unassigned
  until \<^verbatim>\<open>setSize\<close> assigns all four together.
\<close>

record fieldset =
  dye :: doubleFBO
  velocity :: doubleFBO
  pressure :: doubleFBO
  divergence :: fbo_rec

text \<open>The variables closed over by the functions of one \<^verbatim>\<open>initFluid\<close> call.\<close>

record sim =
  gl :: gl_state
  page :: host_page
  canvas_attached :: bool
  canvas_size :: "int \<times> int"
  dpr :: real
  width :: int
  height :: int
  fbos :: "fieldset option"
  texel :: vec2
  lastT :: real

definition clearDye :: real where
  "clearDye = 0.995"

definition clearVel :: real where
  "clearVel = 0.995"

definition pressureIters :: nat where
  "pressureIters = 15"

section \<open>The passes\<close>

definition advect :: "vec2 \<Rightarrow> fbo_rec \<Rightarrow> fbo_rec \<Rightarrow> fbo_rec \<Rightarrow> real \<Rightarrow> gl_state \<Rightarrow> gl_state" where
  "advect tx dst src vel dt g =
     bindAndDraw (Some (fbo dst))
       (advectFrag (bound_texture g (tex src)) (bound_texture g (tex vel)) tx dt) g"

definition applyDissipation :: "fbo_rec \<Rightarrow> fbo_rec \<Rightarrow> real \<Rightarrow> gl_state \<Rightarrow> gl_state" where
  "applyDissipation dst src diss g =
     bindAndDraw (Some (fbo dst)) (clearFrag (bound_texture g (tex src)) diss) g"

definition computeDivergence :: "vec2 \<Rightarrow> fieldset \<Rightarrow> gl_state \<Rightarrow> gl_state" where
  "computeDivergence tx F g =
     bindAndDraw (Some (fbo (divergence F)))
       (divergenceFrag (bound_texture g (tex (read_fbo (velocity F)))) tx) g"

text \<open>The body of the \<^verbatim>\<open>for\<close> loop of \<^verbatim>\<open>solvePressure\<close>, and the loop run \<open>n\<close> times.\<close>

definition pressureIter :: "vec2 \<Rightarrow> fieldset \<times> gl_state \<Rightarrow> fieldset \<times> gl_state" where
  "pressureIter tx = (\<lambda>(F, g).
     (F\<lparr>pressure := swap (pressure F)\<rparr>,
      bindAndDraw (Some (fbo (write_fbo (pressure F))))
        (pressureFrag (bound_texture g (tex (read_fbo (pressure F))))
                      (bound_texture g (tex (divergence F))) tx) g))"

fun pressureLoop :: "nat \<Rightarrow> vec2 \<Rightarrow> fieldset \<times> gl_state \<Rightarrow> fieldset \<times> gl_state" where
  "pressureLoop 0 tx Fg = Fg"
| "pressureLoop (Suc n) tx Fg = pressureLoop n tx (pressureIter tx Fg)"

definition solvePressure :: "vec2 \<Rightarrow> fieldset \<times> gl_state \<Rightarrow> fieldset \<times> gl_state" where
  "solvePressure tx = (\<lambda>(F, g).
     pressureLoop pressureIters tx
       (F\<lparr>pressure := swap (pressure F)\<rparr>,
        clearTo (fbo (write_fbo (pressure F))) (0, 0, 0, 1) g))"

definition subtractGradient :: "vec2 \<Rightarrow> fieldset \<times> gl_state \<Rightarrow> fieldset \<times> gl_state" where
  "subtractGradient tx = (\<lambda>(F, g).
     (F\<lparr>velocity := swap (velocity F)\<rparr>,
      bindAndDraw (Some (fbo (write_fbo (velocity F))))
        (gradientSubtractFrag (bound_texture g (tex (read_fbo (velocity F))))
                              (bound_texture g (tex (read_fbo (pressure F)))) tx) g))"

definition render :: "fieldset \<Rightarrow> gl_state \<Rightarrow> gl_state" where
  "render F g = bindAndDraw None (displayFrag (bound_texture g (tex (read_fbo (dye F))))) g"

text \<open>
  The passes of \<^verbatim>\<open>step\<close> after the time step \<open>dt\<close> has been computed, in the order of
  the source, each followed by the \<^verbatim>\<open>swap()\<close> the source does.
\<close>

definition step_passes :: "real \<Rightarrow> vec2 \<Rightarrow> fieldset \<times> gl_state \<Rightarrow> fieldset \<times> gl_state" where
  "step_passes dt tx = (\<lambda>(F, g).
     (let g1 = advect tx (write_fbo (velocity F)) (read_fbo (velocity F)) (read_fbo (velocity F)) dt g;
          F1 = F\<lparr>velocity := swap (velocity F)\<rparr>;
          g2 = applyDissipation (write_fbo (velocity F1)) (read_fbo (velocity F1)) clearVel g1;
          F2 = F1\<lparr>velocity := swap (velocity F1)\<rparr>;
          g3 = computeDivergence tx F2 g2;
          (F4, g4) = solvePressure tx (F2, g3);
          (F5, g5) = subtractGradient tx (F4, g4);
          g6 = advect tx (write_fbo (dye F5)) (read_fbo (dye F5)) (read_fbo (velocity F5)) dt g5;
          F6 = F5\<lparr>dye := swap (dye F5)\<rparr>;
          g7 = applyDissipation (write_fbo (dye F6)) (read_fbo (dye F6)) clearDye g6;
          F7 = F6\<lparr>dye := swap (dye F6)\<rparr>;
          g8 = render F7 g7
      in (F7, g8)))"

text \<open>
  \<^verbatim>\<open>step\<close>, the frame callback. Reading a member of an unassigned field variable
  raises a \<^verbatim>\<open>TypeError\<close>. The last statement schedules the next frame.
\<close>

definition step :: "browser \<Rightarrow> sim \<Rightarrow> error + sim" where
  "step b s =
     (let dt = min 0.032 ((now b - lastT s) / 1000);
          s1 = s\<lparr>lastT := now b\<rparr>
      in case fbos s1 of
           None \<Rightarrow> Inl TypeError
         | Some F \<Rightarrow>
             (case step_passes dt (texel s1) (F, gl s1) of
                (F', g') \<Rightarrow>
                  Inr (s1\<lparr>fbos := Some F', gl := g',
                          page := (page s1)\<lparr>raf_pending := raf_pending (page s1) + 1\<rparr>\<rparr>)))"

text \<open>
  The browser runs one pending frame callback: it leaves the queue and \<^verbatim>\<open>step\<close> runs.
  With nothing pending, nothing runs.
\<close>

definition animation_frame :: "browser \<Rightarrow> sim \<Rightarrow> error + sim" where
  "animation_frame b s =
     (if raf_pending (page s) = 0 then Inr s
      else step b (s\<lparr>page := (page s)\<lparr>raf_pending := raf_pending (page s) - 1\<rparr>\<rparr>))"

section \<open>Resizing\<close>

text \<open>
  \<^verbatim>\<open>Float32Array.prototype.set(source, offset)\<close> copies the elements of the array-like
  \<open>source\<close> into the array, starting at index \<open>offset\<close>. Called with a number as
  \<open>source\<close>, as in \<^verbatim>\<open>texel.set(1/width, 1/height)\<close>, it converts the number to an object,
  which has no \<open>length\<close>: the source has zero elements and nothing is copied. The second
  number is truncated to the offset; a \<^verbatim>\<open>RangeError\<close> is raised only for an offset that
  is negative or exceeds the length of the array, which the reciprocal of a size of at
  least 2 (offset 0) never is.
\<close>

definition Float32Array_set_number :: "vec2 \<Rightarrow> real \<Rightarrow> real \<Rightarrow> vec2" where
  "Float32Array_set_number arr source offset = arr"

text \<open>
  \<^verbatim>\<open>setSize()\<close>. The assignments to \<^verbatim>\<open>canvas.width\<close> and \<^verbatim>\<open>canvas.height\<close> give the
  canvas a new drawing buffer, which is blank. The product of the layout size and the
  device pixel ratio is taken in the real numbers.
\<close>

definition setSize :: "browser \<Rightarrow> sim \<Rightarrow> bool \<times> sim" where
  "setSize b s =
     (let w = max 2 \<lfloor>real_of_int (clientWidth b) * dpr s\<rfloor>;
          h = max 2 \<lfloor>real_of_int (clientHeight b) * dpr s\<rfloor>
      in if w = width s \<and> h = height s then (False, s)
         else
           (let g0 = (gl s)\<lparr>screen := (\<lambda>i j. (0, 0, 0, 0))\<rparr>;
                (d, g1) = createDoubleFBO g0 w h RGBA16F LINEAR;
                (v, g2) = createDoubleFBO g1 w h RG16F LINEAR;
                (p, g3) = createDoubleFBO g2 w h R16F NEAREST;
                (dv, g4) = createFBO g3 w h R16F NEAREST
            in (True,
                s\<lparr>width := w, height := h, canvas_size := (w, h),
                  fbos := Some \<lparr>dye = d, velocity = v, pressure = p, divergence = dv\<rparr>,
                  gl := g4,
                  texel := Float32Array_set_number (texel s)
                             (1 / real_of_int w) (1 / real_of_int h)\<rparr>)))"

definition resize :: "browser \<Rightarrow> sim \<Rightarrow> sim" where
  "resize b s = snd (setSize b s)"

text \<open>The four allocations of \<^verbatim>\<open>setSize\<close> taken together.\<close>

definition alloc_fields :: "gl_state \<Rightarrow> int \<Rightarrow> int \<Rightarrow> fieldset \<times> gl_state" where
  "alloc_fields g w h =
     (let (d, g1) = createDoubleFBO g w h RGBA16F LINEAR;
          (v, g2) = createDoubleFBO g1 w h RG16F LINEAR;
          (p, g3) = createDoubleFBO g2 w h R16F NEAREST;
          (dv, g4) = createFBO g3 w h R16F NEAREST
      in (\<lparr>dye = d, velocity = v, pressure = p, divergence = dv\<rparr>, g4))"

section \<open>Splats\<close>

text \<open>
  \<^verbatim>\<open>splat(x, y, color, radius, force)\<close>; an omitted \<open>radius\<close> or \<open>force\<close> is \<open>None\<close>.
\<close>

definition splat ::
  "real \<Rightarrow> real \<Rightarrow> real \<times> real \<times> real \<Rightarrow> real option \<Rightarrow> vec2 option \<Rightarrow> sim \<Rightarrow> error + sim" where
  "splat x y color radius force s =
     (let radius' = (case radius of None \<Rightarrow> 0.04 | Some r \<Rightarrow> r);
          cr = max 0.002 radius'
      in case fbos s of
           None \<Rightarrow> Inl TypeError
         | Some F \<Rightarrow>
             (let g1 = bindAndDraw (Some (fbo (write_fbo (dye F))))
                         (splatFrag (bound_texture (gl s) (tex (read_fbo (dye F)))) (x, y) color cr)
                         (gl s);
                  F1 = F\<lparr>dye := swap (dye F)\<rparr>;
                  fx = (case force of None \<Rightarrow> 0 | Some f \<Rightarrow> fst f);
                  fy = (case force of None \<Rightarrow> 0 | Some f \<Rightarrow> snd f);
                  g2 = bindAndDraw (Some (fbo (write_fbo (velocity F1))))
                         (splatVelFrag (bound_texture g1 (tex (read_fbo (velocity F1)))) (x, y)
                            (fx, fy) cr)
                         g1;
                  F2 = F1\<lparr>velocity := swap (velocity F1)\<rparr>
              in Inr (s\<lparr>fbos := Some F2, gl := g2\<rparr>)))"

text \<open>
  The options of \<^verbatim>\<open>splatRandom\<close>; an omitted \<open>opts\<close> is the record of five \<open>None\<close>.
  \<^verbatim>\<open>v || d\<close> on a number is \<open>d\<close> when \<open>v\<close> is missing or zero.
\<close>

record splat_opts =
  minRadius :: "real option"
  maxRadius :: "real option"
  maxForce :: "real option"
  forceScale :: "real option"
  color_opt :: "(real \<times> real \<times> real) option"

definition or_default :: "real option \<Rightarrow> real \<Rightarrow> real" where
  "or_default v d = (case v of None \<Rightarrow> d | Some x \<Rightarrow> if x = 0 then d else x)"

text \<open>
  \<^verbatim>\<open>splatRandom(count, opts)\<close>. The values that successive calls of \<^verbatim>\<open>Math.random()\<close>
  return are the sequence \<open>rnd k, rnd (k + 1), \<dots>\<close>; one round of the loop draws five of
  them, and three more when no colour is given.
\<close>

fun splatRandom :: "nat \<Rightarrow> splat_opts \<Rightarrow> (nat \<Rightarrow> real) \<Rightarrow> nat \<Rightarrow> sim \<Rightarrow> error + sim" where
  "splatRandom 0 opts rnd k s = Inr s"
| "splatRandom (Suc n) opts rnd k s =
     (let minR = or_default (minRadius opts) 0.015;
          maxR = or_default (maxRadius opts) 0.06;
          maxF = or_default (maxForce opts) 2.5;
          x = rnd k;
          y = rnd (k + 1);
          r = minR + rnd (k + 2) * (maxR - minR);
          a = rnd (k + 3) * pi * 2;
          m = or_default (forceScale opts) 1.0 * (0.2 + 0.8 * rnd (k + 4));
          f = (cos a * maxF * m, sin a * maxF * m);
          c = (case color_opt opts of
                 Some c' \<Rightarrow> c'
               | None \<Rightarrow> (rnd (k + 5), rnd (k + 6), rnd (k + 7)));
          k' = (case color_opt opts of Some c' \<Rightarrow> k + 5 | None \<Rightarrow> k + 8)
      in case splat x y c (Some r) (Some f) s of
           Inl e \<Rightarrow> Inl e
         | Inr s' \<Rightarrow> splatRandom n opts rnd k' s')"

section \<open>Construction and teardown\<close>

text \<open>
  \<^verbatim>\<open>createGL\<close>: fails when no context is returned; the results of the two
  \<^verbatim>\<open>getExtension\<close> calls are not inspected. \<^verbatim>\<open>getExtension\<close> enables an extension
  that the implementation offers, so \<^verbatim>\<open>EXT_color_buffer_float\<close> is enabled on the new
  context exactly when the browser has it. (Linear filtering of 16F textures needs no
  extension in WebGL2.) The canvas of a new context has the default size 300 by 150.
\<close>

definition createGL :: "browser \<Rightarrow> error + gl_state" where
  "createGL b =
     (if \<not> webgl2 b then Inl (Error ''WebGL2 not supported'')
      else Inr \<lparr>textures = Map.empty, framebuffers = Map.empty, next_handle = 1,
                viewport = (300, 150), screen = (\<lambda>i j. (0, 0, 0, 0)),
                draw_calls = 0, clear_calls = 0,
                color_buffer_float = EXT_color_buffer_float b\<rparr>)"

text \<open>\<^verbatim>\<open>compile\<close> and \<^verbatim>\<open>program\<close>; the diagnostic log of the message is left out.\<close>

definition compile :: "browser \<Rightarrow> string \<Rightarrow> error + unit" where
  "compile b source =
     (if \<not> compiles b source then Inl (Error ''Shader compile error: '') else Inr ())"

definition program :: "browser \<Rightarrow> string \<Rightarrow> string \<Rightarrow> error + unit" where
  "program b vertSrc fragSrc =
     (case compile b vertSrc of
        Inl e \<Rightarrow> Inl e
      | Inr _ \<Rightarrow>
          (case compile b fragSrc of
             Inl e \<Rightarrow> Inl e
           | Inr _ \<Rightarrow>
               if \<not> links b fragSrc then Inl (Error ''Program link error: '') else Inr ()))"

text \<open>The nine programs of \<^verbatim>\<open>initFluid\<close>, built in this order; the first failure is raised.\<close>

fun programs :: "browser \<Rightarrow> string list \<Rightarrow> error + unit" where
  "programs b [] = Inr ()"
| "programs b (f # fs) =
     (case program b ''baseVert'' f of Inl e \<Rightarrow> Inl e | Inr _ \<Rightarrow> programs b fs)"

definition fragment_sources :: "string list" where
  "fragment_sources =
     [''copyFrag'', ''advectFrag'', ''divergenceFrag'', ''clearFrag'', ''pressureFrag'',
      ''gradientSubtractFrag'', ''splatFrag'', ''splatVelFrag'', ''displayFrag'']"

record init_opts =
  maxDPR :: "real option"

text \<open>
  \<^verbatim>\<open>initFluid(container, opts)\<close> on a page. A failure is raised after the canvas has
  been appended to the container: the page at that moment comes with the error.
\<close>

definition initFluid :: "browser \<Rightarrow> init_opts option \<Rightarrow> host_page \<Rightarrow> (error \<times> host_page) + sim" where
  "initFluid b opts pg =
     (let opts' = (case opts of None \<Rightarrow> \<lparr>maxDPR = None\<rparr> | Some x \<Rightarrow> x);
          dpr0 = min (if devicePixelRatio b = 0 then 1 else devicePixelRatio b)
                     (or_default (maxDPR opts') 2);
          pg1 = pg\<lparr>container_children := container_children pg + 1\<rparr>
      in case createGL b of
           Inl e \<Rightarrow> Inl (e, pg1)
         | Inr g \<Rightarrow>
             (case programs b fragment_sources of
                Inl e \<Rightarrow> Inl (e, pg1)
              | Inr _ \<Rightarrow>
                  (let s0 = \<lparr>gl = g, page = pg1, canvas_attached = True,
                             canvas_size = (300, 150), dpr = dpr0, width = 0, height = 0,
                             fbos = None, texel = (0, 0), lastT = now b\<rparr>;
                       s1 = snd (setSize b s0)
                   in Inr (s1\<lparr>page := (page s1)\<lparr>raf_pending := raf_pending (page s1) + 1\<rparr>\<rparr>))))"

text \<open>
  \<^verbatim>\<open>destroy()\<close>: the expression statement \<^verbatim>\<open>gl.getExtension;\<close> has no effect; the
  canvas is removed from its parent when it has one.
\<close>

definition destroy :: "sim \<Rightarrow> sim" where
  "destroy s =
     (if canvas_attached s
      then s\<lparr>canvas_attached := False,
             page := (page s)\<lparr>container_children := container_children (page s) - 1\<rparr>\<rparr>
      else s)"

section \<open>Runs of the program\<close>

text \<open>
  The states a handle can be in: the one \<^verbatim>\<open>initFluid\<close> returns, and those reached
  from it by frame callbacks and by calls of the four public functions.
\<close>

inductive reachable :: "sim \<Rightarrow> bool" where
  init: "initFluid b opts pg = Inr s \<Longrightarrow> reachable s"
| frame: "reachable s \<Longrightarrow> animation_frame b s = Inr s' \<Longrightarrow> reachable s'"
| splat: "reachable s \<Longrightarrow> splat x y c r f s = Inr s' \<Longrightarrow> reachable s'"
| splatRandom: "reachable s \<Longrightarrow> splatRandom n opts rnd k s = Inr s' \<Longrightarrow> reachable s'"
| resize: "reachable s \<Longrightarrow> reachable (resize b s)"
| destroy: "reachable s \<Longrightarrow> reachable (destroy s)"

text \<open>A splat applies no force when \<open>force\<close> is omitted or is the zero vector.\<close>

definition zero_force :: "vec2 option \<Rightarrow> bool" where
  "zero_force f \<longleftrightarrow> f = None \<or> f = Some (0, 0)"

text \<open>
  The states reached from a fresh handle by frame callbacks and splats without force.
\<close>

inductive calm :: "sim \<Rightarrow> bool" where
  init: "initFluid b opts pg = Inr s \<Longrightarrow> calm s"
| frame: "calm s \<Longrightarrow> animation_frame b s = Inr s' \<Longrightarrow> calm s'"
| splat: "calm s \<Longrightarrow> zero_force f \<Longrightarrow> splat x y c r f s = Inr s' \<Longrightarrow> calm s'"

type_synonym splat_args = "real \<times> real \<times> (real \<times> real \<times> real) \<times> real option \<times> vec2 option"

text \<open>A sequence of \<^verbatim>\<open>splat\<close> calls, stopping at the first that raises.\<close>

fun splat_all :: "splat_args list \<Rightarrow> sim \<Rightarrow> error + sim" where
  "splat_all [] s = Inr s"
| "splat_all ((x, y, c, r, f) # ps) s =
     (case splat x y c r f s of Inl e \<Rightarrow> Inl e | Inr s' \<Rightarrow> splat_all ps s')"

section \<open>Observations and invariants\<close>

fun z_of :: "vec4 \<Rightarrow> real" where
  "z_of (a, b, c, d) = c"

fun w_of :: "vec4 \<Rightarrow> real" where
  "w_of (a, b, c, d) = d"

text \<open>The content of the texture behind a framebuffer object, texel by texel.\<close>

definition field_at :: "gl_state \<Rightarrow> fbo_rec \<Rightarrow> int \<Rightarrow> int \<Rightarrow> vec4" where
  "field_at g f i j = texels (bound_texture g (tex f)) i j"

text \<open>
  The current dye and velocity of a handle: the content of the \<open>read\<close> buffer. A handle
  whose fields are unassigned has no content, which reads as zero here.
\<close>

definition dye_at :: "sim \<Rightarrow> int \<Rightarrow> int \<Rightarrow> vec4" where
  "dye_at s i j =
     (case fbos s of None \<Rightarrow> (0, 0, 0, 0) | Some F \<Rightarrow> field_at (gl s) (read_fbo (dye F)) i j)"

definition velocity_at :: "sim \<Rightarrow> int \<Rightarrow> int \<Rightarrow> vec4" where
  "velocity_at s i j =
     (case fbos s of None \<Rightarrow> (0, 0, 0, 0) | Some F \<Rightarrow> field_at (gl s) (read_fbo (velocity F)) i j)"

definition pressure_at :: "sim \<Rightarrow> int \<Rightarrow> int \<Rightarrow> vec4" where
  "pressure_at s i j =
     (case fbos s of None \<Rightarrow> (0, 0, 0, 0) | Some F \<Rightarrow> field_at (gl s) (read_fbo (pressure F)) i j)"

definition divergence_at :: "sim \<Rightarrow> int \<Rightarrow> int \<Rightarrow> vec4" where
  "divergence_at s i j =
     (case fbos s of None \<Rightarrow> (0, 0, 0, 0) | Some F \<Rightarrow> field_at (gl s) (divergence F) i j)"

text \<open>The sum of a field over the \<open>w \<times> h\<close> grid, channel by channel.\<close>

definition grid_sum :: "int \<Rightarrow> int \<Rightarrow> (int \<Rightarrow> int \<Rightarrow> vec4) \<Rightarrow> vec4" where
  "grid_sum w h f =
     ((\<Sum>i = 0..<w. \<Sum>j = 0..<h. x_of (f i j)),
      (\<Sum>i = 0..<w. \<Sum>j = 0..<h. y_of (f i j)),
      (\<Sum>i = 0..<w. \<Sum>j = 0..<h. z_of (f i j)),
      (\<Sum>i = 0..<w. \<Sum>j = 0..<h. w_of (f i j)))"

definition total_dye :: "sim \<Rightarrow> vec4" where
  "total_dye s = grid_sum (width s) (height s) (dye_at s)"

text \<open>
  What one \<^verbatim>\<open>splat(x, y, color, radius)\<close> adds to the dye texel \<open>(i, j)\<close> of a \<open>w \<times> h\<close>
  grid, and the dye mass a sequence of splats injects: the sum of these over the grid.
\<close>

definition splat_stamp :: "int \<Rightarrow> int \<Rightarrow> splat_args \<Rightarrow> int \<Rightarrow> int \<Rightarrow> vec4" where
  "splat_stamp w h p i j =
     (case p of (x, y, (r, g, b), radius, f) \<Rightarrow>
        (let cr = max 0.002 (case radius of None \<Rightarrow> 0.04 | Some r' \<Rightarrow> r');
             a = splat_falloff (x, y) cr (pixel_uv w h i j)
         in (r * a, g * a, b * a, a)))"

fun injected :: "int \<Rightarrow> int \<Rightarrow> splat_args list \<Rightarrow> vec4" where
  "injected w h [] = (0, 0, 0, 0)"
| "injected w h (p # ps) = vec4_add (grid_sum w h (splat_stamp w h p)) (injected w h ps)"


definition tex_shape :: "texture \<Rightarrow> int \<times> int \<times> internalFormat \<times> texFilter" where
  "tex_shape t = (tex_w t, tex_h t, tex_format t, tex_filter t)"

text \<open>Every texel of the texture is a value its format can hold.\<close>

definition stored :: "texture \<Rightarrow> bool" where
  "stored t \<longleftrightarrow> (\<forall>i j. store_fmt (tex_format t) (texels t i j) = texels t i j)"

text \<open>A texture that still holds the zero-filled storage it was allocated with.\<close>

definition pristine :: "texture \<Rightarrow> bool" where
  "pristine t \<longleftrightarrow> texels t = (\<lambda>i j. store_fmt (tex_format t) (0, 0, 0, 0))"

text \<open>
  A framebuffer object is well formed in a context when its framebuffer is attached to
  its texture, the texture has the expected size, format and filter, and, on a context
  that cannot render into it, the texture is as it was allocated.
\<close>

definition wf_fbo ::
  "gl_state \<Rightarrow> int \<Rightarrow> int \<Rightarrow> internalFormat \<Rightarrow> texFilter \<Rightarrow> fbo_rec \<Rightarrow> bool" where
  "wf_fbo g w h fmt flt f \<longleftrightarrow>
     framebuffers g (fbo f) = Some (tex f) \<and>
     (case textures g (tex f) of
        None \<Rightarrow> False
      | Some t \<Rightarrow> tex_shape t = (w, h, fmt, flt) \<and> stored t \<and>
                  (color_buffer_float g \<or> pristine t)) \<and>
     fbo_w f = w \<and> fbo_h f = h"

definition wf_double ::
  "gl_state \<Rightarrow> int \<Rightarrow> int \<Rightarrow> internalFormat \<Rightarrow> texFilter \<Rightarrow> doubleFBO \<Rightarrow> bool" where
  "wf_double g w h fmt flt d \<longleftrightarrow>
     wf_fbo g w h fmt flt (read_fbo d) \<and> wf_fbo g w h fmt flt (write_fbo d)"

definition field_fbos :: "fieldset \<Rightarrow> fbo_rec list" where
  "field_fbos F =
     [read_fbo (dye F), write_fbo (dye F),
      read_fbo (velocity F), write_fbo (velocity F),
      read_fbo (pressure F), write_fbo (pressure F),
      divergence F]"

definition wf_fields :: "gl_state \<Rightarrow> int \<Rightarrow> int \<Rightarrow> fieldset \<Rightarrow> bool" where
  "wf_fields g w h F \<longleftrightarrow>
     wf_double g w h RGBA16F LINEAR (dye F) \<and>
     wf_double g w h RG16F LINEAR (velocity F) \<and>
     wf_double g w h R16F NEAREST (pressure F) \<and>
     wf_fbo g w h R16F NEAREST (divergence F) \<and>
     distinct (map tex (field_fbos F)) \<and>
     viewport g = (w, h)"

definition wf_sim :: "sim \<Rightarrow> bool" where
  "wf_sim s \<longleftrightarrow>
     (case fbos s of None \<Rightarrow> False | Some F \<Rightarrow> wf_fields (gl s) (width s) (height s) F) \<and>
     2 \<le> width s \<and> 2 \<le> height s \<and>
     canvas_size s = (width s, height s) \<and>
     texel s = (0, 0) \<and>
     1 \<le> raf_pending (page s)"

text \<open>A texture at rest: positive size, and every texel of the grid reads \<open>(0, 0, 0, 1)\<close>.\<close>

definition resting :: "texture \<Rightarrow> bool" where
  "resting t \<longleftrightarrow> 0 < tex_w t \<and> 0 < tex_h t \<and>
     (\<forall>i j. in_grid (tex_w t) (tex_h t) i j \<longrightarrow> texels t i j = (0, 0, 0, 1))"

section \<open>A concrete page\<close>

text \<open>
  A browser with WebGL2 and both extensions in which every shader builds, showing the
  canvas at 2 by 2 layout pixels with device pixel ratio 1, and an empty page.
\<close>

definition ex_browser :: browser where
  "ex_browser =
     \<lparr>now = 0, devicePixelRatio = 1, clientWidth = 2, clientHeight = 2, hidden = False,
      webgl2 = True, EXT_color_buffer_float = True, OES_texture_float_linear = True,
      compiles = (\<lambda>src. True), links = (\<lambda>src. True)\<rparr>"

definition ex_page :: host_page where
  "ex_page = \<lparr>container_children = 0, raf_pending = 0\<rparr>"

definition ex_sim :: sim where
  "ex_sim = projr (initFluid ex_browser None ex_page)"

text \<open>The field objects of this handle, with the handles the context gave them.\<close>

definition ex_fields :: fieldset where
  "ex_fields =
     \<lparr>dye = \<lparr>fbo1 = \<lparr>tex = 1, fbo = 2, fbo_w = 2, fbo_h = 2\<rparr>,
             fbo2 = \<lparr>tex = 3, fbo = 4, fbo_w = 2, fbo_h = 2\<rparr>\<rparr>,
      velocity = \<lparr>fbo1 = \<lparr>tex = 5, fbo = 6, fbo_w = 2, fbo_h = 2\<rparr>,
                  fbo2 = \<lparr>tex = 7, fbo = 8, fbo_w = 2, fbo_h = 2\<rparr>\<rparr>,
      pressure = \<lparr>fbo1 = \<lparr>tex = 9, fbo = 10, fbo_w = 2, fbo_h = 2\<rparr>,
                  fbo2 = \<lparr>tex = 11, fbo = 12, fbo_w = 2, fbo_h = 2\<rparr>\<rparr>,
      divergence = \<lparr>tex = 13, fbo = 14, fbo_w = 2, fbo_h = 2\<rparr>\<rparr>"

text \<open>The same handle after a red splat centred on the texel \<open>(0, 0)\<close>.\<close>

definition ex_splatted :: sim where
  "ex_splatted = projr (splat (1 / 4) (1 / 4) (1, 0, 0) None None ex_sim)"

text \<open>The same page with a container of layout size zero.\<close>

definition ex_zero_sim :: sim where
  "ex_zero_sim = projr (initFluid (ex_browser\<lparr>clientWidth := 0, clientHeight := 0\<rparr>) None ex_page)"

text \<open>The same browser offering neither floating-point extension.\<close>

definition ex_noext_browser :: browser where
  "ex_noext_browser = ex_browser\<lparr>EXT_color_buffer_float := False, OES_texture_float_linear := False\<rparr>"

text \<open>
  The handle that \<^verbatim>\<open>initFluid\<close> returns in that browser, the same handle after one
  frame, and after one frame and a red splat.
\<close>

definition ex_noext_sim :: sim where
  "ex_noext_sim = projr (initFluid ex_noext_browser None ex_page)"

definition ex_noext_framed :: sim where
  "ex_noext_framed = projr (animation_frame ex_noext_browser ex_noext_sim)"

definition ex_noext_resplatted :: sim where
  "ex_noext_resplatted =
     projr (splat_all [(1 / 4, 1 / 4, (1, 0, 0), None, None)] ex_noext_framed)"

text \<open>The same handle after one frame, and after one frame and a red splat.\<close>

definition ex_framed :: sim where
  "ex_framed = projr (animation_frame ex_browser ex_sim)"

definition ex_resplatted :: sim where
  "ex_resplatted = projr (splat_all [(1 / 4, 1 / 4, (1, 0, 0), None, None)] ex_framed)"



section \<open>Properties\<close>


lemma store_fmt_idem [simp]: "store_fmt f (store_fmt f v) = store_fmt f v"
  by (cases f; cases v) simp_all

lemma bindAndDraw_simps [simp]:
  "framebuffers (bindAndDraw tgt frag g) = framebuffers g"
  "viewport (bindAndDraw tgt frag g) = viewport g"
  "next_handle (bindAndDraw tgt frag g) = next_handle g"
  "draw_calls (bindAndDraw tgt frag g) = draw_calls g + 1"
  "clear_calls (bindAndDraw tgt frag g) = clear_calls g"
  "color_buffer_float (bindAndDraw tgt frag g) = color_buffer_float g"
  by (simp_all add: bindAndDraw_def Let_def split: option.splits)

lemma clearTo_simps [simp]:
  "framebuffers (clearTo f c g) = framebuffers g"
  "viewport (clearTo f c g) = viewport g"
  "next_handle (clearTo f c g) = next_handle g"
  "draw_calls (clearTo f c g) = draw_calls g"
  "clear_calls (clearTo f c g) = clear_calls g + 1"
  "color_buffer_float (clearTo f c g) = color_buffer_float g"
  by (simp_all add: clearTo_def Let_def split: option.splits)

lemma stored_draw_texture: "stored t \<Longrightarrow> stored (draw_texture vp frag t)"
  by (simp add: stored_def draw_texture_def)

lemma tex_shape_draw_texture [simp]: "tex_shape (draw_texture vp frag t) = tex_shape t"
  by (simp add: tex_shape_def draw_texture_def)

lemma wf_fbo_bindAndDraw:
  "wf_fbo g w h fmt flt f \<Longrightarrow> wf_fbo (bindAndDraw tgt frag g) w h fmt flt f"
  by (auto simp add: wf_fbo_def bindAndDraw_def Let_def stored_draw_texture split: option.splits)

lemma wf_fbo_clearTo:
  "wf_fbo g w h fmt flt f \<Longrightarrow> wf_fbo (clearTo k c g) w h fmt flt f"
  by (auto simp add: wf_fbo_def clearTo_def Let_def stored_def tex_shape_def split: option.splits)

lemma wf_fields_bindAndDraw:
  "wf_fields g w h F \<Longrightarrow> wf_fields (bindAndDraw tgt frag g) w h F"
  by (simp add: wf_fields_def wf_double_def wf_fbo_bindAndDraw)

lemma wf_fields_clearTo:
  "wf_fields g w h F \<Longrightarrow> wf_fields (clearTo k c g) w h F"
  by (simp add: wf_fields_def wf_double_def wf_fbo_clearTo)

lemma swap_simps [simp]:
  "read_fbo (swap d) = (read_fbo d)\<lparr>tex := tex (write_fbo d), fbo := fbo (write_fbo d)\<rparr>"
  "write_fbo (swap d) = (write_fbo d)\<lparr>tex := tex (read_fbo d), fbo := fbo (read_fbo d)\<rparr>"
  by (simp_all add: swap_def read_fbo_def write_fbo_def)

lemma wf_double_swap [simp]:
  "wf_double g w h fmt flt (swap d) = wf_double g w h fmt flt d"
  by (auto simp add: wf_double_def wf_fbo_def)

lemma wf_fields_swap [simp]:
  "wf_fields g w h (F\<lparr>dye := swap (dye F)\<rparr>) = wf_fields g w h F"
  "wf_fields g w h (F\<lparr>velocity := swap (velocity F)\<rparr>) = wf_fields g w h F"
  "wf_fields g w h (F\<lparr>pressure := swap (pressure F)\<rparr>) = wf_fields g w h F"
  by (auto simp add: wf_fields_def field_fbos_def)

lemma wf_pressureIter:
  "pressureIter tx (F, g) = (F', g') \<Longrightarrow> wf_fields g w h F \<Longrightarrow> wf_fields g' w h F'"
  by (auto simp add: pressureIter_def wf_fields_bindAndDraw)

lemma wf_pressureLoop:
  "pressureLoop n tx (F, g) = (F', g') \<Longrightarrow> wf_fields g w h F \<Longrightarrow> wf_fields g' w h F'"
proof (induction n arbitrary: F g)
  case 0
  then show ?case by simp
next
  case (Suc n)
  obtain F1 g1 where it: "pressureIter tx (F, g) = (F1, g1)" by (cases "pressureIter tx (F, g)")
  with Suc.prems have "pressureLoop n tx (F1, g1) = (F', g')" by simp
  from Suc.IH[OF this] wf_pressureIter[OF it] Suc.prems(2) show ?case by simp
qed

lemma wf_solvePressure:
  "solvePressure tx (F, g) = (F', g') \<Longrightarrow> wf_fields g w h F \<Longrightarrow> wf_fields g' w h F'"
  unfolding solvePressure_def prod.case
  by (erule wf_pressureLoop) (simp add: wf_fields_clearTo)

lemma wf_subtractGradient:
  "subtractGradient tx (F, g) = (F', g') \<Longrightarrow> wf_fields g w h F \<Longrightarrow> wf_fields g' w h F'"
  by (auto simp add: subtractGradient_def wf_fields_bindAndDraw)

lemma wf_advect: "wf_fields g w h F \<Longrightarrow> wf_fields (advect tx dst src vel dt g) w h F"
  by (simp add: advect_def wf_fields_bindAndDraw)

lemma wf_applyDissipation: "wf_fields g w h F \<Longrightarrow> wf_fields (applyDissipation dst src k g) w h F"
  by (simp add: applyDissipation_def wf_fields_bindAndDraw)

lemma wf_computeDivergence: "wf_fields g w h F \<Longrightarrow> wf_fields (computeDivergence tx F0 g) w h F"
  by (simp add: computeDivergence_def wf_fields_bindAndDraw)

lemma wf_render: "wf_fields g w h F \<Longrightarrow> wf_fields (render F0 g) w h F"
  by (simp add: render_def wf_fields_bindAndDraw)

text \<open>The passes of a step, named one by one.\<close>

lemma step_passes_unfold:
  assumes sp: "solvePressure tx (F2, g3) = (F4, g4)"
    and sg: "subtractGradient tx (F4, g4) = (F5, g5)"
    and g1: "g1 = advect tx (write_fbo (velocity F)) (read_fbo (velocity F)) (read_fbo (velocity F)) dt g"
    and F1: "F1 = F\<lparr>velocity := swap (velocity F)\<rparr>"
    and g2: "g2 = applyDissipation (write_fbo (velocity F1)) (read_fbo (velocity F1)) clearVel g1"
    and F2: "F2 = F1\<lparr>velocity := swap (velocity F1)\<rparr>"
    and g3: "g3 = computeDivergence tx F2 g2"
    and g6: "g6 = advect tx (write_fbo (dye F5)) (read_fbo (dye F5)) (read_fbo (velocity F5)) dt g5"
    and F6: "F6 = F5\<lparr>dye := swap (dye F5)\<rparr>"
    and g7: "g7 = applyDissipation (write_fbo (dye F6)) (read_fbo (dye F6)) clearDye g6"
    and F7: "F7 = F6\<lparr>dye := swap (dye F6)\<rparr>"
  shows "step_passes dt tx (F, g) = (F7, render F7 g7)"
  unfolding step_passes_def Let_def prod.case
    g1[symmetric] F1[symmetric] g2[symmetric] F2[symmetric] g3[symmetric]
    sp sg g6[symmetric] F6[symmetric] g7[symmetric] F7[symmetric] ..

lemma wf_step_passes:
  assumes "step_passes dt tx (F, g) = (F', g')" and wf: "wf_fields g w h F"
  shows "wf_fields g' w h F'"
proof -
  define g1 where "g1 = advect tx (write_fbo (velocity F)) (read_fbo (velocity F)) (read_fbo (velocity F)) dt g"
  define F1 where "F1 = F\<lparr>velocity := swap (velocity F)\<rparr>"
  define g2 where "g2 = applyDissipation (write_fbo (velocity F1)) (read_fbo (velocity F1)) clearVel g1"
  define F2 where "F2 = F1\<lparr>velocity := swap (velocity F1)\<rparr>"
  define g3 where "g3 = computeDivergence tx F2 g2"
  obtain F4 g4 where sp: "solvePressure tx (F2, g3) = (F4, g4)"
    by (cases "solvePressure tx (F2, g3)")
  obtain F5 g5 where sg: "subtractGradient tx (F4, g4) = (F5, g5)"
    by (cases "subtractGradient tx (F4, g4)")
  define g6 where "g6 = advect tx (write_fbo (dye F5)) (read_fbo (dye F5)) (read_fbo (velocity F5)) dt g5"
  define F6 where "F6 = F5\<lparr>dye := swap (dye F5)\<rparr>"
  define g7 where "g7 = applyDissipation (write_fbo (dye F6)) (read_fbo (dye F6)) clearDye g6"
  define F7 where "F7 = F6\<lparr>dye := swap (dye F6)\<rparr>"
  have "step_passes dt tx (F, g) = (F7, render F7 g7)"
    by (rule step_passes_unfold[OF sp sg g1_def F1_def g2_def F2_def g3_def g6_def F6_def g7_def F7_def])
  with assms have r: "F' = F7" "g' = render F7 g7" by auto
  have "wf_fields g1 w h F" unfolding g1_def by (rule wf_advect[OF wf])
  then have "wf_fields g1 w h F1" unfolding F1_def by simp
  then have "wf_fields g2 w h F1" unfolding g2_def by (rule wf_applyDissipation)
  then have "wf_fields g2 w h F2" unfolding F2_def by simp
  then have "wf_fields g3 w h F2" unfolding g3_def by (rule wf_computeDivergence)
  then have "wf_fields g4 w h F4" by (rule wf_solvePressure[OF sp])
  then have "wf_fields g5 w h F5" by (rule wf_subtractGradient[OF sg])
  then have "wf_fields g6 w h F5" unfolding g6_def by (rule wf_advect)
  then have "wf_fields g6 w h F6" unfolding F6_def by simp
  then have "wf_fields g7 w h F6" unfolding g7_def by (rule wf_applyDissipation)
  then have "wf_fields g7 w h F7" unfolding F7_def by simp
  then have "wf_fields (render F7 g7) w h F7" by (rule wf_render)
  then show ?thesis by (simp add: r)
qed

lemma step_Inr:
  assumes "fbos s = Some F"
  shows "\<exists>F' g'. step_passes (min 0.032 ((now b - lastT s) / 1000)) (texel s) (F, gl s) = (F', g') \<and>
     step b s = Inr (s\<lparr>lastT := now b, fbos := Some F', gl := g',
                       page := (page s)\<lparr>raf_pending := raf_pending (page s) + 1\<rparr>\<rparr>)"
  using assms by (simp add: step_def Let_def split: prod.splits)

lemma wf_sim_animation_frame:
  assumes "wf_sim s" "animation_frame b s = Inr s'"
  shows "wf_sim s'"
proof -
  let ?s0 = "s\<lparr>page := (page s)\<lparr>raf_pending := raf_pending (page s) - 1\<rparr>\<rparr>"
  from assms(1) have pos: "raf_pending (page s) \<noteq> 0" by (simp add: wf_sim_def)
  with assms(2) have st: "step b ?s0 = Inr s'" by (simp add: animation_frame_def)
  from assms(1) obtain F where F: "fbos ?s0 = Some F" and wf: "wf_fields (gl s) (width s) (height s) F"
    by (auto simp add: wf_sim_def split: option.splits)
  from step_Inr[OF F, of b] obtain F' g' where
    sp: "step_passes (min 0.032 ((now b - lastT ?s0) / 1000)) (texel ?s0) (F, gl ?s0) = (F', g')" and
    st': "step b ?s0 = Inr (?s0\<lparr>lastT := now b, fbos := Some F', gl := g',
                       page := (page ?s0)\<lparr>raf_pending := raf_pending (page ?s0) + 1\<rparr>\<rparr>)"
    by blast
  from wf_step_passes[OF sp] wf have "wf_fields g' (width s) (height s) F'" by simp
  with assms(1) st st' show ?thesis by (auto simp add: wf_sim_def)
qed

lemma splat_unfold:
  assumes F: "fbos s = Some F"
    and cr: "cr = max 0.002 (case r of None \<Rightarrow> 0.04 | Some r' \<Rightarrow> r')"
    and g1: "g1 = bindAndDraw (Some (fbo (write_fbo (dye F))))
                   (splatFrag (bound_texture (gl s) (tex (read_fbo (dye F)))) (x, y) c cr) (gl s)"
    and F1: "F1 = F\<lparr>dye := swap (dye F)\<rparr>"
    and fv: "fv = (case f of None \<Rightarrow> (0, 0) | Some v \<Rightarrow> v)"
    and g2: "g2 = bindAndDraw (Some (fbo (write_fbo (velocity F1))))
                   (splatVelFrag (bound_texture g1 (tex (read_fbo (velocity F1)))) (x, y) fv cr) g1"
    and F2: "F2 = F1\<lparr>velocity := swap (velocity F1)\<rparr>"
  shows "splat x y c r f s = Inr (s\<lparr>fbos := Some F2, gl := g2\<rparr>)"
proof -
  have "((case f of None \<Rightarrow> 0 | Some v \<Rightarrow> fst v), (case f of None \<Rightarrow> 0 | Some v \<Rightarrow> snd v)) = fv"
    by (simp add: fv split: option.splits)
  then show ?thesis
    unfolding splat_def Let_def F option.case cr[symmetric] g1[symmetric] F1[symmetric]
    by (simp add: g2 F2)
qed

lemma splat_Inr:
  assumes "fbos s = Some F"
  shows "\<exists>s'. splat x y c r f s = Inr s'"
  using assms by (simp add: splat_def Let_def)

lemma wf_sim_splat:
  assumes "wf_sim s" "splat x y c r f s = Inr s'"
  shows "wf_sim s'"
proof -
  from assms(1) obtain F where F: "fbos s = Some F" and wf: "wf_fields (gl s) (width s) (height s) F"
    by (auto simp add: wf_sim_def split: option.splits)
  define cr where "cr = max 0.002 (case r of None \<Rightarrow> 0.04 | Some r' \<Rightarrow> r')"
  define g1 where "g1 = bindAndDraw (Some (fbo (write_fbo (dye F))))
                   (splatFrag (bound_texture (gl s) (tex (read_fbo (dye F)))) (x, y) c cr) (gl s)"
  define F1 where "F1 = F\<lparr>dye := swap (dye F)\<rparr>"
  define fv where "fv = (case f of None \<Rightarrow> (0, 0) | Some v \<Rightarrow> v)"
  define g2 where "g2 = bindAndDraw (Some (fbo (write_fbo (velocity F1))))
                   (splatVelFrag (bound_texture g1 (tex (read_fbo (velocity F1)))) (x, y) fv cr) g1"
  define F2 where "F2 = F1\<lparr>velocity := swap (velocity F1)\<rparr>"
  have s': "s' = s\<lparr>fbos := Some F2, gl := g2\<rparr>"
    using splat_unfold[OF F cr_def g1_def F1_def fv_def g2_def F2_def] assms(2) by simp
  have "wf_fields g1 (width s) (height s) F" unfolding g1_def by (rule wf_fields_bindAndDraw[OF wf])
  then have "wf_fields g1 (width s) (height s) F1" unfolding F1_def by simp
  then have "wf_fields g2 (width s) (height s) F1" unfolding g2_def by (rule wf_fields_bindAndDraw)
  then have "wf_fields g2 (width s) (height s) F2" unfolding F2_def by simp
  with assms(1) show ?thesis by (simp add: s' wf_sim_def)
qed

lemma wf_sim_splatRandom:
  "wf_sim s \<Longrightarrow> splatRandom n opts rnd k s = Inr s' \<Longrightarrow> wf_sim s'"
proof (induction n arbitrary: s k)
  case 0
  then show ?case by simp
next
  case (Suc n)
  from Suc.prems(2) show ?case
    by (simp add: Let_def split: sum.splits) (metis Suc.IH Suc.prems(1) wf_sim_splat)
qed

lemma wf_sim_destroy: "wf_sim s \<Longrightarrow> wf_sim (destroy s)"
  by (auto simp add: wf_sim_def destroy_def split: option.splits)


lemma wf_alloc_fields:
  "alloc_fields g w h = (F, g') \<Longrightarrow> wf_fields g' w h F"
  by (auto simp add: alloc_fields_def createDoubleFBO_def createFBO_def Let_def wf_fields_def
      wf_double_def wf_fbo_def field_fbos_def read_fbo_def write_fbo_def stored_def tex_shape_def
      pristine_def)

lemma alloc_fields_context [simp]:
  "color_buffer_float (snd (alloc_fields g w h)) = color_buffer_float g"
  by (simp add: alloc_fields_def createDoubleFBO_def createFBO_def Let_def)

lemma zero_alloc_fields:
  "alloc_fields g w h = (F, g') \<Longrightarrow>
     field_at g' (read_fbo (dye F)) i j = (0, 0, 0, 0) \<and>
     field_at g' (write_fbo (dye F)) i j = (0, 0, 0, 0) \<and>
     field_at g' (read_fbo (velocity F)) i j = (0, 0, 0, 1) \<and>
     field_at g' (write_fbo (velocity F)) i j = (0, 0, 0, 1) \<and>
     field_at g' (read_fbo (pressure F)) i j = (0, 0, 0, 1) \<and>
     field_at g' (write_fbo (pressure F)) i j = (0, 0, 0, 1) \<and>
     field_at g' (divergence F) i j = (0, 0, 0, 1)"
  by (auto simp add: alloc_fields_def createDoubleFBO_def createFBO_def Let_def field_at_def
      bound_texture_def read_fbo_def write_fbo_def)

lemma setSize_alloc:
  "setSize b s =
     (let w = max 2 \<lfloor>real_of_int (clientWidth b) * dpr s\<rfloor>;
          h = max 2 \<lfloor>real_of_int (clientHeight b) * dpr s\<rfloor>
      in if w = width s \<and> h = height s then (False, s)
         else (True, s\<lparr>width := w, height := h, canvas_size := (w, h),
                       fbos := Some (fst (alloc_fields ((gl s)\<lparr>screen := (\<lambda>i j. (0, 0, 0, 0))\<rparr>) w h)),
                       gl := snd (alloc_fields ((gl s)\<lparr>screen := (\<lambda>i j. (0, 0, 0, 0))\<rparr>) w h)\<rparr>))"
  by (simp add: setSize_def alloc_fields_def Let_def Float32Array_set_number_def split: prod.splits)

lemma wf_sim_setSize_changed:
  assumes "setSize b s = (True, s')" "1 \<le> raf_pending (page s)" "texel s = (0, 0)"
  shows "wf_sim s'"
proof -
  define w where "w = max 2 \<lfloor>real_of_int (clientWidth b) * dpr s\<rfloor>"
  define h where "h = max 2 \<lfloor>real_of_int (clientHeight b) * dpr s\<rfloor>"
  obtain F g where al: "alloc_fields ((gl s)\<lparr>screen := (\<lambda>i j. (0, 0, 0, 0))\<rparr>) w h = (F, g)" by (cases "alloc_fields ((gl s)\<lparr>screen := (\<lambda>i j. (0, 0, 0, 0))\<rparr>) w h")
  from assms(1) have s': "s' = s\<lparr>width := w, height := h, canvas_size := (w, h),
                       fbos := Some F, gl := g\<rparr>"
    by (simp add: setSize_alloc Let_def w_def[symmetric] h_def[symmetric] al split: if_splits)
  have "2 \<le> w" "2 \<le> h" by (simp_all add: w_def h_def)
  with wf_alloc_fields[OF al] assms(2,3) show ?thesis by (simp add: s' wf_sim_def)
qed

lemma wf_sim_resize: "wf_sim s \<Longrightarrow> wf_sim (resize b s)"
proof -
  assume wf: "wf_sim s"
  obtain r s' where ss: "setSize b s = (r, s')" by (cases "setSize b s")
  show ?thesis
  proof (cases r)
    case True
    with ss wf wf_sim_setSize_changed[of b s s'] show ?thesis by (simp add: resize_def wf_sim_def)
  next
    case False
    with ss have "s' = s" by (simp add: setSize_alloc Let_def split: if_splits)
    with ss wf show ?thesis by (simp add: resize_def)
  qed
qed

lemma setSize_keeps:
  "canvas_attached (snd (setSize b s)) = canvas_attached s" "page (snd (setSize b s)) = page s"
  by (simp_all add: setSize_alloc Let_def)

lemma initFluid_Inr:
  assumes "initFluid b opts pg = Inr s"
  shows "\<exists>g d. s = (snd (setSize b
            \<lparr>gl = g, page = pg\<lparr>container_children := container_children pg + 1\<rparr>,
             canvas_attached = True, canvas_size = (300, 150), dpr = d,
             width = 0, height = 0, fbos = None, texel = (0, 0), lastT = now b\<rparr>))
          \<lparr>page := pg\<lparr>container_children := container_children pg + 1,
                        raf_pending := raf_pending pg + 1\<rparr>\<rparr>"
proof -
  from assms obtain g where g: "createGL b = Inr g"
    by (cases "createGL b") (simp_all add: initFluid_def Let_def)
  from assms g have p: "programs b fragment_sources = Inr ()"
    by (cases "programs b fragment_sources") (simp_all add: initFluid_def Let_def)
  from assms have "s = (snd (setSize b
            \<lparr>gl = g, page = pg\<lparr>container_children := container_children pg + 1\<rparr>,
             canvas_attached = True, canvas_size = (300, 150),
             dpr = min (if devicePixelRatio b = 0 then 1 else devicePixelRatio b)
                     (or_default (maxDPR (case opts of None \<Rightarrow> \<lparr>maxDPR = None\<rparr> | Some x \<Rightarrow> x)) 2),
             width = 0, height = 0, fbos = None, texel = (0, 0), lastT = now b\<rparr>))
          \<lparr>page := pg\<lparr>container_children := container_children pg + 1,
                        raf_pending := raf_pending pg + 1\<rparr>\<rparr>"
    unfolding initFluid_def Let_def g p sum.case
    by (simp add: setSize_keeps)
  then show ?thesis by blast
qed

lemma setSize_fresh:
  assumes "width s = 0"
  shows "fst (setSize b s) = True"
proof -
  have "max 2 \<lfloor>real_of_int (clientWidth b) * dpr s\<rfloor> \<noteq> 0" by linarith
  with assms show ?thesis by (simp add: setSize_alloc Let_def)
qed

lemma setSize_page:
  "setSize b (s\<lparr>page := p\<rparr>) = (fst (setSize b s), (snd (setSize b s))\<lparr>page := p\<rparr>)"
  by (simp add: setSize_alloc Let_def)

lemma wf_sim_init:
  assumes "initFluid b opts pg = Inr s"
  shows "wf_sim s"
proof -
  from initFluid_Inr[OF assms] obtain g d where
    s: "s = (snd (setSize b
            \<lparr>gl = g, page = pg\<lparr>container_children := container_children pg + 1\<rparr>,
             canvas_attached = True, canvas_size = (300, 150), dpr = d,
             width = 0, height = 0, fbos = None, texel = (0, 0), lastT = now b\<rparr>))
          \<lparr>page := pg\<lparr>container_children := container_children pg + 1,
                        raf_pending := raf_pending pg + 1\<rparr>\<rparr>"
    by blast
  define s0 where "s0 = \<lparr>gl = g, page = pg\<lparr>container_children := container_children pg + 1\<rparr>,
             canvas_attached = True, canvas_size = (300, 150), dpr = d,
             width = 0, height = 0, fbos = None, texel = (0, 0), lastT = now b\<rparr>"
  define P where "P = pg\<lparr>container_children := container_children pg + 1,
                        raf_pending := raf_pending pg + 1\<rparr>"
  have s': "s = snd (setSize b (s0\<lparr>page := P\<rparr>))"
    unfolding s s0_def[symmetric] P_def[symmetric] by (simp add: setSize_page)
  have "fst (setSize b (s0\<lparr>page := P\<rparr>)) = True"
    by (rule setSize_fresh) (simp add: s0_def)
  then have "setSize b (s0\<lparr>page := P\<rparr>) = (True, s)"
    unfolding s' by (metis prod.collapse)
  then show ?thesis
    by (rule wf_sim_setSize_changed) (simp_all add: P_def s0_def)
qed

lemma reachable_wf: "reachable s \<Longrightarrow> wf_sim s"
proof (induction rule: reachable.induct)
  case (init b opts pg s)
  then show ?case by (rule wf_sim_init)
next
  case (frame s b s')
  then show ?case using wf_sim_animation_frame by blast
next
  case (splat s x y c r f s')
  then show ?case using wf_sim_splat by blast
next
  case (splatRandom s n opts rnd k s')
  then show ?case using wf_sim_splatRandom by blast
next
  case (resize s b)
  then show ?case by (simp add: wf_sim_resize)
next
  case (destroy s)
  then show ?case by (simp add: wf_sim_destroy)
qed


subsection \<open>Counting draw calls\<close>

lemma draws_pressureLoop:
  "pressureLoop n tx (F, g) = (F', g') \<Longrightarrow>
     draw_calls g' = draw_calls g + n \<and> clear_calls g' = clear_calls g"
proof (induction n arbitrary: F g)
  case 0
  then show ?case by simp
next
  case (Suc n)
  obtain F1 g1 where it: "pressureIter tx (F, g) = (F1, g1)" by (cases "pressureIter tx (F, g)")
  then have "draw_calls g1 = draw_calls g + 1" "clear_calls g1 = clear_calls g"
    by (auto simp add: pressureIter_def)
  moreover from Suc.prems it have "pressureLoop n tx (F1, g1) = (F', g')" by simp
  from Suc.IH[OF this] have "draw_calls g' = draw_calls g1 + n" "clear_calls g' = clear_calls g1"
    by simp_all
  ultimately show ?case by simp
qed

lemma draws_solvePressure:
  assumes "solvePressure tx (F, g) = (F', g')"
  shows "draw_calls g' = draw_calls g + 15 \<and> clear_calls g' = clear_calls g + 1"
  using draws_pressureLoop[OF assms[unfolded solvePressure_def prod.case]]
  by (simp add: pressureIters_def)

lemma draws_step_passes:
  assumes "step_passes dt tx (F, g) = (F', g')"
  shows "draw_calls g' = draw_calls g + 22 \<and> clear_calls g' = clear_calls g + 1"
proof -
  define g1 where "g1 = advect tx (write_fbo (velocity F)) (read_fbo (velocity F)) (read_fbo (velocity F)) dt g"
  define F1 where "F1 = F\<lparr>velocity := swap (velocity F)\<rparr>"
  define g2 where "g2 = applyDissipation (write_fbo (velocity F1)) (read_fbo (velocity F1)) clearVel g1"
  define F2 where "F2 = F1\<lparr>velocity := swap (velocity F1)\<rparr>"
  define g3 where "g3 = computeDivergence tx F2 g2"
  obtain F4 g4 where sp: "solvePressure tx (F2, g3) = (F4, g4)"
    by (cases "solvePressure tx (F2, g3)")
  obtain F5 g5 where sg: "subtractGradient tx (F4, g4) = (F5, g5)"
    by (cases "subtractGradient tx (F4, g4)")
  define g6 where "g6 = advect tx (write_fbo (dye F5)) (read_fbo (dye F5)) (read_fbo (velocity F5)) dt g5"
  define F6 where "F6 = F5\<lparr>dye := swap (dye F5)\<rparr>"
  define g7 where "g7 = applyDissipation (write_fbo (dye F6)) (read_fbo (dye F6)) clearDye g6"
  define F7 where "F7 = F6\<lparr>dye := swap (dye F6)\<rparr>"
  have "step_passes dt tx (F, g) = (F7, render F7 g7)"
    by (rule step_passes_unfold[OF sp sg g1_def F1_def g2_def F2_def g3_def g6_def F6_def g7_def F7_def])
  with assms have r: "g' = render F7 g7" by auto
  have 3: "draw_calls g3 = draw_calls g + 3" "clear_calls g3 = clear_calls g"
    by (simp_all add: g3_def g2_def g1_def advect_def applyDissipation_def computeDivergence_def)
  from draws_solvePressure[OF sp] 3
  have 4: "draw_calls g4 = draw_calls g + 18" "clear_calls g4 = clear_calls g + 1" by simp_all
  from sg have 5: "draw_calls g5 = draw_calls g4 + 1" "clear_calls g5 = clear_calls g4"
    by (auto simp add: subtractGradient_def)
  have "draw_calls g' = draw_calls g5 + 3" "clear_calls g' = clear_calls g5"
    by (simp_all add: r render_def g7_def g6_def advect_def applyDissipation_def)
  with 4 5 show ?thesis by simp
qed

lemma animation_frame_runs:
  assumes "wf_sim s"
  shows "\<exists>s'. animation_frame b s = Inr s' \<and>
     draw_calls (gl s') = draw_calls (gl s) + 22 \<and>
     clear_calls (gl s') = clear_calls (gl s) + 1 \<and>
     raf_pending (page s') = raf_pending (page s) \<and>
     lastT s' = now b"
proof -
  let ?s0 = "s\<lparr>page := (page s)\<lparr>raf_pending := raf_pending (page s) - 1\<rparr>\<rparr>"
  from assms have pos: "raf_pending (page s) \<noteq> 0" by (simp add: wf_sim_def)
  then have af: "animation_frame b s = step b ?s0" by (simp add: animation_frame_def)
  from assms obtain F where F: "fbos ?s0 = Some F"
    by (auto simp add: wf_sim_def split: option.splits)
  from step_Inr[OF F, of b] obtain F' g' where
    sp: "step_passes (min 0.032 ((now b - lastT ?s0) / 1000)) (texel ?s0) (F, gl ?s0) = (F', g')" and
    st': "step b ?s0 = Inr (?s0\<lparr>lastT := now b, fbos := Some F', gl := g',
                       page := (page ?s0)\<lparr>raf_pending := raf_pending (page ?s0) + 1\<rparr>\<rparr>)"
    by blast
  from draws_step_passes[OF sp] pos show ?thesis unfolding af st' by simp
qed

lemma animation_frame_hidden: "animation_frame (b\<lparr>hidden := v\<rparr>) s = animation_frame b s"
  by (simp add: animation_frame_def step_def)

text \<open>
  Claim C8, as the code has it: the frame callback has no paused state. Whatever the
  visibility of the document, a scheduled frame of a reachable handle runs the whole
  pipeline (22 draw calls and one clear), and leaves one callback scheduled again.
\<close>

theorem frame_runs_whether_hidden_or_not:
  assumes "reachable s"
  shows "\<exists>s'. animation_frame b s = Inr s' \<and>
     draw_calls (gl s') = draw_calls (gl s) + 22 \<and>
     clear_calls (gl s') = clear_calls (gl s) + 1 \<and>
     raf_pending (page s') = raf_pending (page s) \<and>
     animation_frame (b\<lparr>hidden := True\<rparr>) s = animation_frame (b\<lparr>hidden := False\<rparr>) s"
  using animation_frame_runs[OF reachable_wf[OF assms], of b] by (auto simp add: animation_frame_hidden)

lemma programs_ex: "programs ex_browser fragment_sources = Inr ()"
  by (simp add: fragment_sources_def program_def compile_def ex_browser_def)

lemma ex_init: "initFluid ex_browser None ex_page = Inr ex_sim"
  by (simp add: ex_sim_def initFluid_def programs_ex createGL_def Let_def) (simp add: ex_browser_def)

lemma reachable_ex_sim: "reachable ex_sim"
  by (rule reachable.init[OF ex_init])

lemma ex_browser_sel:
  "now ex_browser = 0" "devicePixelRatio ex_browser = 1" "clientWidth ex_browser = 2"
  "clientHeight ex_browser = 2" "webgl2 ex_browser" "EXT_color_buffer_float ex_browser"
  by (simp_all add: ex_browser_def)

lemma ex_sim_eq:
  "ex_sim =
     (snd (setSize ex_browser
        \<lparr>gl = \<lparr>textures = Map.empty, framebuffers = Map.empty, next_handle = 1,
                viewport = (300, 150), screen = (\<lambda>i j. (0, 0, 0, 0)),
                draw_calls = 0, clear_calls = 0, color_buffer_float = True\<rparr>,
          page = \<lparr>container_children = 1, raf_pending = 0\<rparr>, canvas_attached = True,
          canvas_size = (300, 150), dpr = 1, width = 0, height = 0,
          fbos = None, texel = (0, 0), lastT = 0\<rparr>))
     \<lparr>page := \<lparr>container_children = 1, raf_pending = 1\<rparr>\<rparr>"
  by (simp add: ex_sim_def initFluid_def programs_ex createGL_def Let_def setSize_keeps
      or_default_def ex_browser_sel ex_page_def)

lemma ex_sim_facts:
  "width ex_sim = 2" "height ex_sim = 2" "lastT ex_sim = 0" "draw_calls (gl ex_sim) = 0"
  "page ex_sim = \<lparr>container_children = 1, raf_pending = 1\<rparr>" "canvas_attached ex_sim"
  "dpr ex_sim = 1" "color_buffer_float (gl ex_sim)" "texel ex_sim = (0, 0)"
  by (simp_all add: ex_sim_eq setSize_alloc Let_def ex_browser_sel
      alloc_fields_def createDoubleFBO_def createFBO_def)

lemma programs_ok:
  assumes "compiles b ''baseVert''" "\<forall>f \<in> set fs. compiles b f \<and> links b f"
  shows "programs b fs = Inr ()"
  using assms by (induction fs) (simp_all add: program_def compile_def)

lemma initFluid_no_context:
  assumes "\<not> webgl2 b"
  shows "initFluid b opts pg =
           Inl (Error ''WebGL2 not supported'', pg\<lparr>container_children := container_children pg + 1\<rparr>)"
  using assms by (simp add: initFluid_def createGL_def Let_def)

lemma initFluid_ok:
  assumes "webgl2 b" "programs b fragment_sources = Inr ()"
  shows "\<exists>s. initFluid b opts pg = Inr s"
  using assms by (simp add: initFluid_def createGL_def Let_def)

lemma alloc_fields_on_context:
  "alloc_fields (g\<lparr>color_buffer_float := e, screen := sc\<rparr>) w h =
     (fst (alloc_fields (g\<lparr>screen := sc\<rparr>) w h),
      (snd (alloc_fields (g\<lparr>screen := sc\<rparr>) w h))\<lparr>color_buffer_float := e\<rparr>)"
  by (simp add: alloc_fields_def createDoubleFBO_def createFBO_def Let_def)

lemma setSize_on_context:
  "snd (setSize b (s\<lparr>gl := (gl s)\<lparr>color_buffer_float := e\<rparr>\<rparr>)) =
     (snd (setSize b s))\<lparr>gl := (gl (snd (setSize b s)))\<lparr>color_buffer_float := e\<rparr>\<rparr>"
  by (simp add: setSize_alloc Let_def alloc_fields_on_context)

lemma initFluid_extensions:
  "initFluid (b\<lparr>EXT_color_buffer_float := e1, OES_texture_float_linear := e2\<rparr>) opts pg =
   map_sum id (\<lambda>s. s\<lparr>gl := (gl s)\<lparr>color_buffer_float := e1\<rparr>\<rparr>) (initFluid b opts pg)"
proof -
  let ?b = "b\<lparr>EXT_color_buffer_float := e1, OES_texture_float_linear := e2\<rparr>"
  have p: "programs ?b fs = programs b fs" for fs
    by (induction fs) (simp_all add: program_def compile_def)
  have z: "setSize ?b s = setSize b s" for s by (simp add: setSize_def)
  show ?thesis
  proof (cases "webgl2 b")
    case False
    then show ?thesis by (simp add: initFluid_def Let_def createGL_def)
  next
    case True
    show ?thesis
    proof (cases "programs b fragment_sources")
      case (Inl e)
      with True show ?thesis by (simp add: initFluid_def Let_def createGL_def p)
    next
      case (Inr u)
      define s0 where "s0 = \<lparr>gl = \<lparr>textures = Map.empty, framebuffers = Map.empty, next_handle = 1,
                viewport = (300, 150), screen = (\<lambda>i j. (0, 0, 0, 0)),
                draw_calls = 0, clear_calls = 0,
                color_buffer_float = EXT_color_buffer_float b\<rparr>,
              page = pg\<lparr>container_children := container_children pg + 1\<rparr>,
              canvas_attached = True, canvas_size = (300, 150),
              dpr = min (if devicePixelRatio b = 0 then 1 else devicePixelRatio b)
                     (or_default (maxDPR (case opts of None \<Rightarrow> \<lparr>maxDPR = None\<rparr> | Some x \<Rightarrow> x)) 2),
              width = 0, height = 0, fbos = None, texel = (0, 0), lastT = now b\<rparr>"
      have 1: "initFluid b opts pg =
          Inr ((snd (setSize b s0))\<lparr>page := (page (snd (setSize b s0)))
                 \<lparr>raf_pending := raf_pending (page (snd (setSize b s0))) + 1\<rparr>\<rparr>)"
        using True Inr by (simp add: initFluid_def Let_def createGL_def s0_def)
      have "s0\<lparr>gl := (gl s0)\<lparr>color_buffer_float := e1\<rparr>\<rparr> =
          \<lparr>gl = \<lparr>textures = Map.empty, framebuffers = Map.empty, next_handle = 1,
                viewport = (300, 150), screen = (\<lambda>i j. (0, 0, 0, 0)),
                draw_calls = 0, clear_calls = 0,
                color_buffer_float = e1\<rparr>,
              page = pg\<lparr>container_children := container_children pg + 1\<rparr>,
              canvas_attached = True, canvas_size = (300, 150),
              dpr = min (if devicePixelRatio b = 0 then 1 else devicePixelRatio b)
                     (or_default (maxDPR (case opts of None \<Rightarrow> \<lparr>maxDPR = None\<rparr> | Some x \<Rightarrow> x)) 2),
              width = 0, height = 0, fbos = None, texel = (0, 0), lastT = now b\<rparr>"
        by (simp add: s0_def)
      then have 2: "initFluid ?b opts pg =
          Inr ((snd (setSize b (s0\<lparr>gl := (gl s0)\<lparr>color_buffer_float := e1\<rparr>\<rparr>)))
                \<lparr>page := (page (snd (setSize b (s0\<lparr>gl := (gl s0)\<lparr>color_buffer_float := e1\<rparr>\<rparr>))))
                 \<lparr>raf_pending := raf_pending (page (snd (setSize b
                       (s0\<lparr>gl := (gl s0)\<lparr>color_buffer_float := e1\<rparr>\<rparr>)))) + 1\<rparr>\<rparr>)"
        using True Inr by (simp add: initFluid_def Let_def createGL_def p z)
      show ?thesis
        unfolding 1 2 setSize_on_context by simp
    qed
  qed
qed

text \<open>
  Claim C7, as the code has it: \<^verbatim>\<open>initFluid\<close> fails with the error
  \<^verbatim>\<open>WebGL2 not supported\<close> when no context is available, leaving behind only the canvas
  it had appended to the container (no handle, no frame callback); with a context and
  shaders that build it succeeds; and the availability of the two floating-point
  extensions has no influence on the outcome: the same error, or the same handle on a
  context that differs only in whether \<^verbatim>\<open>EXT_color_buffer_float\<close> is enabled on it.
\<close>

theorem init_fails_without_context_only:
  "(\<not> webgl2 b \<longrightarrow>
      initFluid b opts pg =
        Inl (Error ''WebGL2 not supported'', pg\<lparr>container_children := container_children pg + 1\<rparr>)) \<and>
   (webgl2 b \<and> compiles b ''baseVert'' \<and> (\<forall>f \<in> set fragment_sources. compiles b f \<and> links b f) \<longrightarrow>
      (\<exists>s. initFluid b opts pg = Inr s)) \<and>
   initFluid (b\<lparr>EXT_color_buffer_float := e1, OES_texture_float_linear := e2\<rparr>) opts pg =
     map_sum id (\<lambda>s. s\<lparr>gl := (gl s)\<lparr>color_buffer_float := e1\<rparr>\<rparr>) (initFluid b opts pg)"
  using initFluid_no_context[of b opts pg] initFluid_ok[of b opts pg] programs_ok[of b fragment_sources]
    initFluid_extensions[where b = b and ?e1.0 = e1 and ?e2.0 = e2 and opts = opts and pg = pg]
  by blast

theorem init_fails_without_context_only_witness:
  "initFluid (ex_browser\<lparr>webgl2 := False\<rparr>) None ex_page =
     Inl (Error ''WebGL2 not supported'', \<lparr>container_children = 1, raf_pending = 0\<rparr>) \<and>
   (\<exists>s. initFluid ex_browser None ex_page = Inr s) \<and>
   initFluid (ex_browser\<lparr>EXT_color_buffer_float := False, OES_texture_float_linear := False\<rparr>) None ex_page =
     map_sum id (\<lambda>s. s\<lparr>gl := (gl s)\<lparr>color_buffer_float := False\<rparr>\<rparr>)
       (initFluid ex_browser None ex_page)"
  using init_fails_without_context_only[where b = "ex_browser\<lparr>webgl2 := False\<rparr>" and opts = None
      and pg = ex_page and ?e1.0 = True and ?e2.0 = True]
    init_fails_without_context_only[where b = ex_browser and opts = None and pg = ex_page
      and ?e1.0 = False and ?e2.0 = False]
  by (simp add: ex_browser_def ex_page_def fragment_sources_def)

text \<open>
  Claim C7 as stated fails: with a context but neither extension, \<^verbatim>\<open>initFluid\<close>
  succeeds, returning the handle it returns with them, on a context without
  \<^verbatim>\<open>EXT_color_buffer_float\<close>.
\<close>

theorem init_succeeds_without_extensions:
  "initFluid ex_noext_browser None ex_page =
     Inr (ex_sim\<lparr>gl := (gl ex_sim)\<lparr>color_buffer_float := False\<rparr>\<rparr>)"
  unfolding ex_noext_browser_def by (simp add: initFluid_extensions ex_init)



theorem frame_runs_whether_hidden_or_not_witness:
  "\<exists>s'. animation_frame ex_browser ex_sim = Inr s' \<and>
     draw_calls (gl s') = draw_calls (gl ex_sim) + 22 \<and>
     clear_calls (gl s') = clear_calls (gl ex_sim) + 1 \<and>
     raf_pending (page s') = raf_pending (page ex_sim) \<and>
     animation_frame (ex_browser\<lparr>hidden := True\<rparr>) ex_sim =
       animation_frame (ex_browser\<lparr>hidden := False\<rparr>) ex_sim"
  using frame_runs_whether_hidden_or_not[OF reachable_ex_sim, of ex_browser] by simp

text \<open>
  Claim C8 as stated fails: with the document hidden the frame still issues its 22
  draw calls.
\<close>

theorem hidden_frame_draws:
  "\<not> isl (animation_frame (ex_browser\<lparr>hidden := True\<rparr>) ex_sim) \<and>
   draw_calls (gl (projr (animation_frame (ex_browser\<lparr>hidden := True\<rparr>) ex_sim))) = 22"
  using animation_frame_runs[OF reachable_wf[OF reachable_ex_sim], of "ex_browser\<lparr>hidden := True\<rparr>"]
  by (auto simp add: ex_sim_facts)


lemma wf_fbo_dims:
  "wf_fbo g w h fmt flt f \<Longrightarrow>
     fbo_w f = w \<and> fbo_h f = h \<and> tex_w (bound_texture g (tex f)) = w \<and> tex_h (bound_texture g (tex f)) = h"
  by (auto simp add: wf_fbo_def bound_texture_def tex_shape_def split: option.splits)

lemma wf_fields_dims:
  assumes "wf_fields g w h F" "f \<in> set (field_fbos F)"
  shows "fbo_w f = w \<and> fbo_h f = h \<and> tex_w (bound_texture g (tex f)) = w \<and> tex_h (bound_texture g (tex f)) = h"
  using assms wf_fbo_dims[of g w h _ _ f]
  by (auto simp add: wf_fields_def wf_double_def field_fbos_def)

lemma wf_sim_dims:
  assumes "wf_sim s"
  shows "\<exists>F. fbos s = Some F \<and>
     (\<forall>f \<in> set (field_fbos F).
        fbo_w f = width s \<and> fbo_h f = height s \<and> 2 \<le> fbo_w f \<and> 2 \<le> fbo_h f \<and>
        tex_w (bound_texture (gl s) (tex f)) = fbo_w f \<and>
        tex_h (bound_texture (gl s) (tex f)) = fbo_h f) \<and>
     texel s = (0, 0)"
proof -
  from assms obtain F where F: "fbos s = Some F" and wf: "wf_fields (gl s) (width s) (height s) F"
    and w: "2 \<le> width s" and h: "2 \<le> height s"
    and tx: "texel s = (0, 0)"
    by (auto simp add: wf_sim_def split: option.splits)
  with wf_fields_dims[OF wf] show ?thesis by auto
qed

text \<open>
  Claim C10, what the code does: in every reachable state, every field object and its
  texture are as wide and high as the handle's size, which is at least 2 by 2; but the
  stored texel size is not the reciprocal of that size. \<^verbatim>\<open>texel.set(1/width, 1/height)\<close>
  copies nothing into the array, so \<open>texel\<close> is \<open>(0, 0)\<close>, as \<^verbatim>\<open>new Float32Array([0,0])\<close>
  left it, in every reachable state: not positive, as the claim has it.
\<close>

theorem fields_at_least_two_but_texel_zero:
  assumes "reachable s"
  shows "\<exists>F. fbos s = Some F \<and>
     (\<forall>f \<in> set (field_fbos F).
        fbo_w f = width s \<and> fbo_h f = height s \<and> 2 \<le> fbo_w f \<and> 2 \<le> fbo_h f \<and>
        tex_w (bound_texture (gl s) (tex f)) = fbo_w f \<and>
        tex_h (bound_texture (gl s) (tex f)) = fbo_h f) \<and>
     texel s = (0, 0) \<and>
     texel s \<noteq> (1 / real_of_int (width s), 1 / real_of_int (height s))"
proof -
  from reachable_wf[OF assms] have "2 \<le> width s" by (simp add: wf_sim_def)
  then have "1 / real_of_int (width s) \<noteq> 0" by simp
  with wf_sim_dims[OF reachable_wf[OF assms]] show ?thesis by auto
qed

lemma ex_zero_init:
  "initFluid (ex_browser\<lparr>clientWidth := 0, clientHeight := 0\<rparr>) None ex_page = Inr ex_zero_sim"
proof -
  have "programs (ex_browser\<lparr>clientWidth := 0, clientHeight := 0\<rparr>) fragment_sources = Inr ()"
    by (simp add: fragment_sources_def program_def compile_def ex_browser_def)
  then show ?thesis
    by (simp add: ex_zero_sim_def initFluid_def createGL_def Let_def ex_browser_sel)
qed

lemma ex_zero_size: "width ex_zero_sim = 2" "height ex_zero_sim = 2"
proof -
  have p: "programs (ex_browser\<lparr>clientWidth := 0, clientHeight := 0\<rparr>) fragment_sources = Inr ()"
    by (simp add: fragment_sources_def program_def compile_def ex_browser_def)
  show "width ex_zero_sim = 2" "height ex_zero_sim = 2"
    by (simp_all add: ex_zero_sim_def initFluid_def p createGL_def Let_def setSize_alloc
      ex_browser_sel)
qed

lemma field_fbos_mem [simp]:
  "read_fbo (dye F) \<in> set (field_fbos F)" "write_fbo (dye F) \<in> set (field_fbos F)"
  "read_fbo (velocity F) \<in> set (field_fbos F)" "write_fbo (velocity F) \<in> set (field_fbos F)"
  "read_fbo (pressure F) \<in> set (field_fbos F)" "write_fbo (pressure F) \<in> set (field_fbos F)"
  "divergence F \<in> set (field_fbos F)"
  by (simp_all add: field_fbos_def)

theorem fields_at_least_two_but_texel_zero_witness:
  "\<exists>F. fbos ex_zero_sim = Some F \<and>
     fbo_w (read_fbo (dye F)) = 2 \<and> fbo_h (read_fbo (dye F)) = 2 \<and>
     fbo_w (divergence F) = 2 \<and> fbo_h (divergence F) = 2 \<and>
     tex_w (bound_texture (gl ex_zero_sim) (tex (write_fbo (pressure F)))) = 2 \<and>
     tex_h (bound_texture (gl ex_zero_sim) (tex (write_fbo (pressure F)))) = 2 \<and>
     texel ex_zero_sim = (0, 0) \<and> texel ex_zero_sim \<noteq> (1 / 2, 1 / 2)"
  using fields_at_least_two_but_texel_zero[OF reachable.init[OF ex_zero_init]]
  by (auto simp add: ex_zero_size)






lemma ex_sim_fbos: "fbos ex_sim = Some ex_fields"
  by (simp add: ex_sim_eq setSize_alloc Let_def ex_browser_sel
      alloc_fields_def createDoubleFBO_def createFBO_def ex_fields_def)


lemma destroy_sel [simp]:
  "gl (destroy s) = gl s" "fbos (destroy s) = fbos s" "width (destroy s) = width s"
  "height (destroy s) = height s" "texel (destroy s) = texel s" "lastT (destroy s) = lastT s"
  "dpr (destroy s) = dpr s" "raf_pending (page (destroy s)) = raf_pending (page s)"
  "\<not> canvas_attached (destroy s)"
  by (simp_all add: destroy_def)

lemma destroy_splat:
  "splat x y c r f (destroy s) =
     (case splat x y c r f s of Inl e \<Rightarrow> Inl e | Inr s' \<Rightarrow> Inr (destroy s'))"
  by (simp add: splat_def destroy_def Let_def split: option.splits)

lemma destroy_splatRandom:
  "splatRandom n opts rnd k (destroy s) =
     (case splatRandom n opts rnd k s of Inl e \<Rightarrow> Inl e | Inr s' \<Rightarrow> Inr (destroy s'))"
proof (induction n arbitrary: s k)
  case 0
  then show ?case by simp
next
  case (Suc n)
  show ?case
    by (simp add: Let_def destroy_splat Suc.IH split: sum.splits)
qed

lemma destroy_alt:
  "destroy s = s\<lparr>canvas_attached := False,
     page := (page s)\<lparr>container_children :=
        container_children (page s) - (if canvas_attached s then 1 else 0)\<rparr>\<rparr>"
  by (simp add: destroy_def)

lemma setSize_frame:
  "setSize b (s\<lparr>canvas_attached := a, page := p\<rparr>) =
     (fst (setSize b s), (snd (setSize b s))\<lparr>canvas_attached := a, page := p\<rparr>)"
  by (simp add: setSize_alloc Let_def)

lemma destroy_resize: "resize b (destroy s) = destroy (resize b s)"
  unfolding resize_def destroy_alt[of s] setSize_frame
  by (simp add: destroy_alt[of "snd (setSize b s)"] setSize_keeps)

lemma destroy_step:
  "step b (destroy s) = (case step b s of Inl e \<Rightarrow> Inl e | Inr s' \<Rightarrow> Inr (destroy s'))"
  by (simp add: step_def destroy_def Let_def split: option.splits prod.splits)

lemma destroy_animation_frame:
  "animation_frame b (destroy s) =
     (case animation_frame b s of Inl e \<Rightarrow> Inl e | Inr s' \<Rightarrow> Inr (destroy s'))"
proof -
  have "(destroy s)\<lparr>page := (page (destroy s))\<lparr>raf_pending := raf_pending (page (destroy s)) - 1\<rparr>\<rparr>
      = destroy (s\<lparr>page := (page s)\<lparr>raf_pending := raf_pending (page s) - 1\<rparr>\<rparr>)"
    by (simp add: destroy_def)
  then show ?thesis
    by (simp add: animation_frame_def destroy_step)
qed

lemma case_sum_Inr_ex:
  assumes "\<exists>a. x = Inr a \<and> P a" "\<And>a. P a \<Longrightarrow> \<exists>b. f a = Inr b \<and> Q b"
  shows "\<exists>b. (case x of Inl e \<Rightarrow> Inl e | Inr a \<Rightarrow> f a) = Inr b \<and> Q b"
  using assms by auto

lemma splatRandom_Inr:
  "fbos s \<noteq> None \<Longrightarrow> \<exists>s'. splatRandom n opts rnd k s = Inr s' \<and> fbos s' \<noteq> None"
proof (induction n arbitrary: s k)
  case 0
  then show ?case by simp
next
  case (Suc n)
  have sp: "\<exists>s1. splat x y c r f s = Inr s1 \<and> fbos s1 \<noteq> None" for x y c r f
    using Suc.prems by (auto simp add: splat_def Let_def)
  show ?case
    unfolding splatRandom.simps Let_def
    by (rule case_sum_Inr_ex[where P = "\<lambda>s. fbos s \<noteq> None"], rule sp, rule Suc.IH)
qed

lemma splat_draws:
  assumes "splat x y c r f s = Inr s'"
  shows "draw_calls (gl s') = draw_calls (gl s) + 2 \<and> clear_calls (gl s') = clear_calls (gl s)"
  using assms by (auto simp add: splat_def Let_def split: option.splits)

text \<open>
  Claim C3, as the code has it: on a reachable handle \<^verbatim>\<open>splat\<close>, \<^verbatim>\<open>splatRandom\<close>,
  \<^verbatim>\<open>resize\<close> and the frame callback do not raise, before or after \<^verbatim>\<open>destroy()\<close>, and
  do after it what they do before it; \<^verbatim>\<open>destroy()\<close> detaches the canvas and changes
  nothing else: the context, the fields and the scheduled frame callback stay.
\<close>

theorem destroy_only_detaches_canvas:
  assumes "reachable s"
  shows "(\<exists>s'. splat x y c r f s = Inr s' \<and> splat x y c r f (destroy s) = Inr (destroy s')) \<and>
     (\<exists>s'. splatRandom n opts rnd k s = Inr s' \<and>
           splatRandom n opts rnd k (destroy s) = Inr (destroy s')) \<and>
     resize b (destroy s) = destroy (resize b s) \<and>
     (\<exists>s'. animation_frame b s = Inr s' \<and> animation_frame b (destroy s) = Inr (destroy s')) \<and>
     gl (destroy s) = gl s \<and> fbos (destroy s) = fbos s \<and>
     raf_pending (page (destroy s)) = raf_pending (page s) \<and> 1 \<le> raf_pending (page s) \<and>
     \<not> canvas_attached (destroy s)"
proof -
  from reachable_wf[OF assms] have wf: "wf_sim s" .
  then obtain F where F: "fbos s = Some F" by (auto simp add: wf_sim_def split: option.splits)
  from splat_Inr[OF F] obtain s1 where 1: "splat x y c r f s = Inr s1" by blast
  from F splatRandom_Inr[of s n opts rnd k] obtain s2 where 2: "splatRandom n opts rnd k s = Inr s2"
    by auto
  from animation_frame_runs[OF wf, of b] obtain s3 where 3: "animation_frame b s = Inr s3" by blast
  from wf have "1 \<le> raf_pending (page s)" by (simp add: wf_sim_def)
  with 1 2 3 show ?thesis
    by (simp add: destroy_splat destroy_splatRandom destroy_resize destroy_animation_frame)
qed

theorem destroy_only_detaches_canvas_witness:
  "(\<exists>s'. splat (1 / 4) (1 / 4) (1, 0, 0) None None ex_sim = Inr s' \<and>
         splat (1 / 4) (1 / 4) (1, 0, 0) None None (destroy ex_sim) = Inr (destroy s')) \<and>
     (\<exists>s'. splatRandom 2 \<lparr>minRadius = None, maxRadius = None, maxForce = None, forceScale = None,
               color_opt = None\<rparr> (\<lambda>k. 1 / 2) 0 ex_sim = Inr s' \<and>
           splatRandom 2 \<lparr>minRadius = None, maxRadius = None, maxForce = None, forceScale = None,
               color_opt = None\<rparr> (\<lambda>k. 1 / 2) 0 (destroy ex_sim) = Inr (destroy s')) \<and>
     resize ex_browser (destroy ex_sim) = destroy (resize ex_browser ex_sim) \<and>
     (\<exists>s'. animation_frame ex_browser ex_sim = Inr s' \<and>
           animation_frame ex_browser (destroy ex_sim) = Inr (destroy s')) \<and>
     gl (destroy ex_sim) = gl ex_sim \<and> fbos (destroy ex_sim) = fbos ex_sim \<and>
     raf_pending (page (destroy ex_sim)) = 1 \<and> \<not> canvas_attached (destroy ex_sim)"
  using destroy_only_detaches_canvas[OF reachable_ex_sim, of "1 / 4" "1 / 4" "(1, 0, 0)" None None 2
      "\<lparr>minRadius = None, maxRadius = None, maxForce = None, forceScale = None, color_opt = None\<rparr>"
      "\<lambda>k. 1 / 2" 0 ex_browser]
  by (simp add: ex_sim_facts)

text \<open>
  Claim C3 as stated fails: on the destroyed handle a splat issues two draw calls, the
  frame callback is still scheduled, and the next frame issues its 22 draw calls.
\<close>

theorem destroyed_handle_still_draws:
  "\<not> isl (splat (1 / 4) (1 / 4) (1, 0, 0) None None (destroy ex_sim)) \<and>
   draw_calls (gl (projr (splat (1 / 4) (1 / 4) (1, 0, 0) None None (destroy ex_sim)))) =
     draw_calls (gl (destroy ex_sim)) + 2 \<and>
   raf_pending (page (destroy ex_sim)) = 1 \<and>
   \<not> isl (animation_frame ex_browser (destroy ex_sim)) \<and>
   draw_calls (gl (projr (animation_frame ex_browser (destroy ex_sim)))) =
     draw_calls (gl (destroy ex_sim)) + 22"
proof -
  have wf: "wf_sim (destroy ex_sim)" by (rule wf_sim_destroy[OF reachable_wf[OF reachable_ex_sim]])
  then obtain F where F: "fbos (destroy ex_sim) = Some F"
    by (auto simp add: wf_sim_def split: option.splits)
  from splat_Inr[OF F] obtain s1 where
    1: "splat (1 / 4) (1 / 4) (1, 0, 0) None None (destroy ex_sim) = Inr s1" by blast
  from animation_frame_runs[OF wf, of ex_browser] obtain s3 where
    3: "animation_frame ex_browser (destroy ex_sim) = Inr s3"
       "draw_calls (gl s3) = draw_calls (gl (destroy ex_sim)) + 22" by blast
  from splat_draws[OF 1] 1 3 show ?thesis by (simp add: ex_sim_facts)
qed


subsection \<open>Sampling\<close>

lemma clamp_in_grid: "0 \<le> i \<Longrightarrow> i < n \<Longrightarrow> clamp_to_edge n i = i"
  by (simp add: clamp_to_edge_def)

lemma clamp_range: "0 < n \<Longrightarrow> 0 \<le> clamp_to_edge n i \<and> clamp_to_edge n i < n"
  by (auto simp add: clamp_to_edge_def)

lemma texelFetch_in_grid:
  "in_grid (tex_w t) (tex_h t) i j \<Longrightarrow> texelFetch t i j = texels t i j"
  by (simp add: texelFetch_def in_grid_def clamp_in_grid)

lemma vec4_blend_left [simp]:
  "vec4_add (vec4_scale (vec4_add (vec4_scale A 1) (vec4_scale B 0)) 1) (vec4_scale C 0) = A"
  by (cases A; cases B; cases C) simp

lemma floor_half: "\<lfloor>real_of_int i + 1 / 2\<rfloor> = i" "\<lfloor>real_of_int i - 1 / 2\<rfloor> = i - 1"
  by linarith+

lemma pixel_uv_scaled:
  assumes "in_grid w h i j"
  shows "fst (pixel_uv w h i j) * real_of_int w = real_of_int i + 1 / 2"
    "snd (pixel_uv w h i j) * real_of_int h = real_of_int j + 1 / 2"
  using assms by (simp_all add: pixel_uv_def in_grid_def)

lemma sample_at:
  assumes "fst u * real_of_int (tex_w t) = real_of_int i + 1 / 2"
    "snd u * real_of_int (tex_h t) = real_of_int j + 1 / 2"
  shows "sample t u = texelFetch t i j"
proof (cases "tex_filter t")
  case LINEAR
  then show ?thesis
    by (simp add: sample_def assms Let_def)
next
  case NEAREST
  then show ?thesis
    by (simp add: sample_def assms floor_half)
qed

lemma sample_pixel_centre:
  assumes "tex_w t = w" "tex_h t = h" "in_grid w h i j"
  shows "sample t (pixel_uv w h i j) = texels t i j"
  using sample_at[of "pixel_uv w h i j" t i j] pixel_uv_scaled[OF assms(3)] assms
  by (simp add: texelFetch_in_grid)

subsection \<open>The effect of a draw\<close>

lemma wf_fbo_texture:
  assumes "wf_fbo g w h fmt flt f"
  shows "textures g (tex f) = Some (bound_texture g (tex f))"
    "tex_w (bound_texture g (tex f)) = w" "tex_h (bound_texture g (tex f)) = h"
    "tex_format (bound_texture g (tex f)) = fmt" "tex_filter (bound_texture g (tex f)) = flt"
    "stored (bound_texture g (tex f))" "framebuffers g (fbo f) = Some (tex f)"
    "color_buffer_float g \<or> pristine (bound_texture g (tex f))"
  using assms by (auto simp add: wf_fbo_def bound_texture_def tex_shape_def split: option.splits)

lemma bound_texture_draw:
  assumes "wf_fbo g w h fmt flt dst" "viewport g = (w, h)" "color_buffer_float g"
  shows "bound_texture (bindAndDraw (Some (fbo dst)) frag g) k =
     (if k = tex dst then draw_texture (w, h) frag (bound_texture g (tex dst))
      else bound_texture g k)"
proof -
  from assms(1) obtain t where "textures g (tex dst) = Some t" "framebuffers g (fbo dst) = Some (tex dst)"
    by (auto simp add: wf_fbo_def split: option.splits)
  with assms(2,3) show ?thesis
    by (simp add: bindAndDraw_def Let_def bound_texture_def)
qed

lemma bound_texture_clear:
  assumes "wf_fbo g w h fmt flt dst" "color_buffer_float g"
  shows "bound_texture (clearTo (fbo dst) c g) k =
     (if k = tex dst
      then (bound_texture g (tex dst))\<lparr>texels := (\<lambda>i j.
              if in_grid w h i j then store_fmt fmt c else texels (bound_texture g (tex dst)) i j)\<rparr>
      else bound_texture g k)"
proof -
  from assms(1) obtain t where "textures g (tex dst) = Some t" "framebuffers g (fbo dst) = Some (tex dst)"
    "tex_w t = w" "tex_h t = h" "tex_format t = fmt"
    by (auto simp add: wf_fbo_def tex_shape_def split: option.splits)
  moreover from this have "bound_texture g (tex dst) = t" by (simp add: bound_texture_def)
  ultimately show ?thesis
    using assms(2) by (auto simp add: clearTo_def Let_def) (simp_all add: bound_texture_def)
qed

text \<open>On a context without the extension no draw and no clear changes a texture.\<close>

lemma bound_texture_rejected:
  assumes "\<not> color_buffer_float g"
  shows "bound_texture (bindAndDraw tgt frag g) k = bound_texture g k"
    "bound_texture (clearTo f c g) k = bound_texture g k"
  using assms
  by (simp_all add: bindAndDraw_def clearTo_def Let_def bound_texture_def split: option.splits)

lemma texels_draw:
  assumes "tex_w t = w" "tex_h t = h" "in_grid w h i j"
  shows "texels (draw_texture (w, h) frag t) i j = store_fmt (tex_format t) (frag (pixel_uv w h i j))"
  using assms by (simp add: draw_texture_def)

lemma draw_texture_sel [simp]:
  "tex_w (draw_texture vp frag t) = tex_w t" "tex_h (draw_texture vp frag t) = tex_h t"
  "tex_format (draw_texture vp frag t) = tex_format t"
  "tex_filter (draw_texture vp frag t) = tex_filter t"
  by (simp_all add: draw_texture_def)

lemma field_at_draw:
  assumes "wf_fbo g w h fmt flt dst" "viewport g = (w, h)" "color_buffer_float g" "in_grid w h i j"
  shows "field_at (bindAndDraw (Some (fbo dst)) frag g) dst i j = store_fmt fmt (frag (pixel_uv w h i j))"
  using wf_fbo_texture[OF assms(1)] assms
  by (simp add: field_at_def bound_texture_draw[OF assms(1,2,3)] texels_draw)

lemma wf_fields_parts:
  assumes "wf_fields g w h F"
  shows "wf_fbo g w h RGBA16F LINEAR (read_fbo (dye F))" "wf_fbo g w h RGBA16F LINEAR (write_fbo (dye F))"
    "wf_fbo g w h RG16F LINEAR (read_fbo (velocity F))" "wf_fbo g w h RG16F LINEAR (write_fbo (velocity F))"
    "wf_fbo g w h R16F NEAREST (read_fbo (pressure F))" "wf_fbo g w h R16F NEAREST (write_fbo (pressure F))"
    "wf_fbo g w h R16F NEAREST (divergence F)" "viewport g = (w, h)"
    "distinct [tex (read_fbo (dye F)), tex (write_fbo (dye F)),
      tex (read_fbo (velocity F)), tex (write_fbo (velocity F)),
      tex (read_fbo (pressure F)), tex (write_fbo (pressure F)), tex (divergence F)]"
  using assms by (simp_all add: wf_fields_def wf_double_def field_fbos_def)

lemma stored_RG:
  assumes "stored t" "tex_format t = RG16F"
  shows "\<exists>a b. texels t i j = (a, b, 0, 1)"
proof -
  obtain a b c d where v: "texels t i j = (a, b, c, d)" by (cases "texels t i j")
  from assms have "store_fmt RG16F (texels t i j) = texels t i j" by (simp add: stored_def)
  with v show ?thesis by auto
qed

lemma wf_fields_member:
  assumes "wf_fields g w h F" "f \<in> set (field_fbos F)"
  shows "\<exists>fmt flt. wf_fbo g w h fmt flt f"
  using assms by (auto simp add: wf_fields_def wf_double_def field_fbos_def)

lemma draw_keeps:
  assumes "wf_fields g w h F" "f \<in> set (field_fbos F)" "k \<noteq> tex f"
  shows "bound_texture (bindAndDraw (Some (fbo f)) frag g) k = bound_texture g k"
proof (cases "color_buffer_float g")
  case True
  from wf_fields_member[OF assms(1,2)] obtain fmt flt where "wf_fbo g w h fmt flt f" by blast
  from bound_texture_draw[OF this wf_fields_parts(8)[OF assms(1)] True] assms(3) show ?thesis by simp
next
  case False
  then show ?thesis by (rule bound_texture_rejected(1))
qed

lemma clear_keeps:
  assumes "wf_fields g w h F" "f \<in> set (field_fbos F)" "k \<noteq> tex f"
  shows "bound_texture (clearTo (fbo f) c g) k = bound_texture g k"
proof (cases "color_buffer_float g")
  case True
  from wf_fields_member[OF assms(1,2)] obtain fmt flt where "wf_fbo g w h fmt flt f" by blast
  from bound_texture_clear[OF this True] assms(3) show ?thesis by simp
next
  case False
  then show ?thesis by (rule bound_texture_rejected(2))
qed

lemma draw_target:
  assumes "wf_fields g w h F" "f \<in> set (field_fbos F)" "color_buffer_float g"
  shows "bound_texture (bindAndDraw (Some (fbo f)) frag g) (tex f) =
     draw_texture (w, h) frag (bound_texture g (tex f))"
proof -
  from wf_fields_member[OF assms(1,2)] obtain fmt flt where "wf_fbo g w h fmt flt f" by blast
  from bound_texture_draw[OF this wf_fields_parts(8)[OF assms(1)] assms(3)] show ?thesis by simp
qed

lemma draw_keeps':
  assumes "wf_fields g w h F" "G = bindAndDraw (Some (fbo f)) frag g"
    "f \<in> set (field_fbos F)" "k \<noteq> tex f"
  shows "bound_texture G k = bound_texture g k"
  unfolding assms(2) by (rule draw_keeps[OF assms(1,3,4)])

lemma draw_target':
  assumes "wf_fields g w h F" "G = bindAndDraw (Some (fbo f)) frag g" "f \<in> set (field_fbos F)"
    "color_buffer_float g"
  shows "bound_texture G (tex f) = draw_texture (w, h) frag (bound_texture g (tex f))"
  unfolding assms(2) by (rule draw_target[OF assms(1,3,4)])

lemma wf_fields_distinct:
  assumes "wf_fields g w h F"
  shows "tex (read_fbo (dye F)) \<noteq> tex (write_fbo (dye F))"
    "tex (read_fbo (dye F)) \<noteq> tex (read_fbo (velocity F))"
    "tex (read_fbo (dye F)) \<noteq> tex (write_fbo (velocity F))"
    "tex (read_fbo (dye F)) \<noteq> tex (read_fbo (pressure F))"
    "tex (read_fbo (dye F)) \<noteq> tex (write_fbo (pressure F))"
    "tex (read_fbo (dye F)) \<noteq> tex (divergence F)"
    "tex (write_fbo (dye F)) \<noteq> tex (read_fbo (velocity F))"
    "tex (write_fbo (dye F)) \<noteq> tex (write_fbo (velocity F))"
    "tex (write_fbo (dye F)) \<noteq> tex (read_fbo (pressure F))"
    "tex (write_fbo (dye F)) \<noteq> tex (write_fbo (pressure F))"
    "tex (write_fbo (dye F)) \<noteq> tex (divergence F)"
    "tex (read_fbo (velocity F)) \<noteq> tex (write_fbo (velocity F))"
    "tex (read_fbo (velocity F)) \<noteq> tex (read_fbo (pressure F))"
    "tex (read_fbo (velocity F)) \<noteq> tex (write_fbo (pressure F))"
    "tex (read_fbo (velocity F)) \<noteq> tex (divergence F)"
    "tex (write_fbo (velocity F)) \<noteq> tex (read_fbo (pressure F))"
    "tex (write_fbo (velocity F)) \<noteq> tex (write_fbo (pressure F))"
    "tex (write_fbo (velocity F)) \<noteq> tex (divergence F)"
    "tex (read_fbo (pressure F)) \<noteq> tex (write_fbo (pressure F))"
    "tex (read_fbo (pressure F)) \<noteq> tex (divergence F)"
    "tex (write_fbo (pressure F)) \<noteq> tex (divergence F)"
  using wf_fields_parts(9)[OF assms] by simp_all

lemma pristine_field:
  assumes "wf_fbo g w h fmt flt f" "\<not> color_buffer_float g"
  shows "field_at g f i j = store_fmt fmt (0, 0, 0, 0)"
  using wf_fbo_texture(4,8)[OF assms(1)] assms(2) by (simp add: field_at_def pristine_def)

lemma splat_no_force_velocity:
  assumes wf: "wf_sim s" and zf: "zero_force f" and sp: "splat x y c r f s = Inr s'"
    and ij: "in_grid (width s) (height s) i j"
  shows "velocity_at s' i j = velocity_at s i j"
proof -
  from wf obtain F where F: "fbos s = Some F" and wff: "wf_fields (gl s) (width s) (height s) F"
    by (auto simp add: wf_sim_def split: option.splits)
  define cr where "cr = max 0.002 (case r of None \<Rightarrow> 0.04 | Some r' \<Rightarrow> r')"
  define g1 where "g1 = bindAndDraw (Some (fbo (write_fbo (dye F))))
                   (splatFrag (bound_texture (gl s) (tex (read_fbo (dye F)))) (x, y) c cr) (gl s)"
  define F1 where "F1 = F\<lparr>dye := swap (dye F)\<rparr>"
  define fv :: vec2 where "fv = (case f of None \<Rightarrow> (0, 0) | Some v \<Rightarrow> v)"
  from zf have fv0: "fv = (0, 0)" by (auto simp add: fv_def zero_force_def)
  define g2 where "g2 = bindAndDraw (Some (fbo (write_fbo (velocity F1))))
                   (splatVelFrag (bound_texture g1 (tex (read_fbo (velocity F1)))) (x, y) fv cr) g1"
  define F2 where "F2 = F1\<lparr>velocity := swap (velocity F1)\<rparr>"
  have s': "s' = s\<lparr>fbos := Some F2, gl := g2\<rparr>"
    using splat_unfold[OF F cr_def g1_def F1_def fv_def g2_def F2_def] sp by simp
  note p = wf_fields_parts[OF wff]
  have wf1: "wf_fields g1 (width s) (height s) F" unfolding g1_def by (rule wf_fields_bindAndDraw[OF wff])
  note p1 = wf_fields_parts[OF wf1]
  have v': "velocity_at s' i j = field_at g2 (write_fbo (velocity F)) i j"
    by (simp add: velocity_at_def s' F2_def F1_def field_at_def)
  show ?thesis
  proof (cases "color_buffer_float (gl s)")
    case True
    then have c1: "color_buffer_float g1" by (simp add: g1_def)
    let ?T = "bound_texture (gl s) (tex (read_fbo (velocity F)))"
    have T1: "bound_texture g1 (tex (read_fbo (velocity F1))) = ?T"
      using p(9) by (auto simp add: g1_def F1_def bound_texture_draw[OF p(2) p(8) True])
    obtain a b where tv: "texels ?T i j = (a, b, 0, 1)"
      using stored_RG[OF wf_fbo_texture(6)[OF p(3)] wf_fbo_texture(4)[OF p(3)]] by blast
    have smp: "sample ?T (pixel_uv (width s) (height s) i j) = (a, b, 0, 1)"
      using sample_pixel_centre[OF wf_fbo_texture(2)[OF p(3)] wf_fbo_texture(3)[OF p(3)] ij] tv by simp
    note v'
    also have "field_at g2 (write_fbo (velocity F)) i j = store_fmt RG16F
        (splatVelFrag ?T (x, y) fv cr (pixel_uv (width s) (height s) i j))"
      unfolding g2_def T1 using field_at_draw[OF p1(4) p1(8) c1 ij] by (simp add: F1_def)
    also have "\<dots> = (a, b, 0, 1)"
      by (simp add: splatVelFrag_def Let_def smp fv0)
    also have "\<dots> = velocity_at s i j"
      by (simp add: velocity_at_def F field_at_def tv)
    finally show ?thesis .
  next
    case False
    then have c1: "\<not> color_buffer_float g1" by (simp add: g1_def)
    have k2: "bound_texture g2 k = bound_texture g1 k" for k
      unfolding g2_def by (rule bound_texture_rejected(1)[OF c1])
    have k1: "bound_texture g1 k = bound_texture (gl s) k" for k
      unfolding g1_def by (rule bound_texture_rejected(1)[OF False])
    note v'
    also have "field_at g2 (write_fbo (velocity F)) i j = field_at (gl s) (write_fbo (velocity F)) i j"
      by (simp add: field_at_def k2 k1)
    also have "\<dots> = store_fmt RG16F (0, 0, 0, 0)" by (rule pristine_field[OF p(4) False])
    also have "\<dots> = field_at (gl s) (read_fbo (velocity F)) i j"
      by (rule pristine_field[OF p(3) False, symmetric])
    also have "\<dots> = velocity_at s i j" by (simp add: velocity_at_def F)
    finally show ?thesis .
  qed
qed


subsection \<open>Neighbour samples\<close>



subsection \<open>The fragment programs with the texel size the code passes\<close>

text \<open>
  With \<open>uTexel = (0, 0)\<close> every offset sample of a fragment program is the sample at
  \<open>vUv\<close> itself.
\<close>

lemma vec4_sel [simp]:
  "x_of (vec4_add A B) = x_of A + x_of B" "y_of (vec4_add A B) = y_of A + y_of B"
  "z_of (vec4_add A B) = z_of A + z_of B" "w_of (vec4_add A B) = w_of A + w_of B"
  "x_of (vec4_scale A k) = x_of A * k" "y_of (vec4_scale A k) = y_of A * k"
  "z_of (vec4_scale A k) = z_of A * k" "w_of (vec4_scale A k) = w_of A * k"
  "xy_of A = (x_of A, y_of A)"
  by (cases A; cases B; simp)+

lemma store_RGBA [simp]: "store_fmt RGBA16F A = A"
  by (cases A) simp

lemma vec2_zero [simp]:
  "vec2_scale (0, 0) k = (0, 0)" "vec2_mul v (0, 0) = (0, 0)" "vec2_sub uv (0, 0) = uv"
  "vec2_add uv (0, 0) = uv"
  by (cases v; cases uv; simp)+

lemma advectFrag_unset: "advectFrag S V (0, 0) dt uv = sample S uv"
  by (simp add: advectFrag_def Let_def)

lemma divergenceFrag_unset: "divergenceFrag V (0, 0) uv = (0, 0, 0, 1)"
  by (simp add: divergenceFrag_def Let_def)

lemma pressureFrag_unset:
  "pressureFrag P D (0, 0) uv = ((4 * x_of (sample P uv) - x_of (sample D uv)) * 0.25, 0, 0, 1)"
  by (simp add: pressureFrag_def Let_def)

subsection \<open>Fields at rest\<close>

lemma texelFetch_resting: "resting t \<Longrightarrow> texelFetch t i j = (0, 0, 0, 1)"
  using clamp_range[of "tex_w t" i] clamp_range[of "tex_h t" j]
  by (simp add: resting_def texelFetch_def in_grid_def)

lemma sample_resting:
  assumes "resting t"
  shows "x_of (sample t uv) = 0" "y_of (sample t uv) = 0"
  by (cases "tex_filter t"; simp add: sample_def Let_def texelFetch_resting[OF assms])+

lemma resting_draw:
  assumes "tex_w t = w" "tex_h t = h" "0 < w" "0 < h"
    and "\<And>i j. in_grid w h i j \<Longrightarrow> store_fmt (tex_format t) (frag (pixel_uv w h i j)) = (0, 0, 0, 1)"
  shows "resting (draw_texture (w, h) frag t)"
  using assms by (simp add: resting_def draw_texture_def)

subsection \<open>The pressure solve\<close>

lemma context_pressureLoop:
  "pressureLoop n tx (F, g) = (F', g') \<Longrightarrow> color_buffer_float g' = color_buffer_float g"
proof (induction n arbitrary: F g)
  case 0
  then show ?case by simp
next
  case (Suc n)
  obtain F1 g1 where it: "pressureIter tx (F, g) = (F1, g1)" by (cases "pressureIter tx (F, g)")
  then have "color_buffer_float g1 = color_buffer_float g" by (auto simp add: pressureIter_def)
  moreover from Suc.prems it have "pressureLoop n tx (F1, g1) = (F', g')" by simp
  from Suc.IH[OF this] have "color_buffer_float g' = color_buffer_float g1" .
  ultimately show ?case by simp
qed

lemma context_solvePressure:
  assumes "solvePressure tx (F, g) = (F', g')"
  shows "color_buffer_float g' = color_buffer_float g"
  using context_pressureLoop[OF assms[unfolded solvePressure_def prod.case]] by simp

text \<open>
  The loop touches no texture but the two of the pressure, and leaves the other field
  objects as they are.
\<close>

lemma pressureLoop_keeps:
  assumes "wf_fields g w h F" and "pressureLoop n tx (F, g) = (F', g')"
  shows "dye F' = dye F \<and> velocity F' = velocity F \<and> divergence F' = divergence F \<and>
     (\<forall>k. k \<noteq> tex (read_fbo (pressure F)) \<longrightarrow> k \<noteq> tex (write_fbo (pressure F)) \<longrightarrow>
          bound_texture g' k = bound_texture g k) \<and>
     {tex (read_fbo (pressure F')), tex (write_fbo (pressure F'))} =
       {tex (read_fbo (pressure F)), tex (write_fbo (pressure F))}"
  using assms
proof (induction n arbitrary: F g)
  case 0
  then show ?case by simp
next
  case (Suc n)
  note wf = Suc.prems(1)
  obtain F1 g1 where it: "pressureIter tx (F, g) = (F1, g1)" by (cases "pressureIter tx (F, g)")
  then have F1: "F1 = F\<lparr>pressure := swap (pressure F)\<rparr>"
    and g1: "g1 = bindAndDraw (Some (fbo (write_fbo (pressure F))))
        (pressureFrag (bound_texture g (tex (read_fbo (pressure F))))
                      (bound_texture g (tex (divergence F))) tx) g"
    by (simp_all add: pressureIter_def)
  have k1: "bound_texture g1 k = bound_texture g k" if "k \<noteq> tex (write_fbo (pressure F))" for k
    using draw_keeps'[OF wf g1 field_fbos_mem(6) that] .
  from wf_pressureIter[OF it wf] have wf1: "wf_fields g1 w h F1" .
  from Suc.prems(2) it have lp: "pressureLoop n tx (F1, g1) = (F', g')" by simp
  note ih = Suc.IH[OF wf1 lp]
  have t1: "tex (read_fbo (pressure F1)) = tex (write_fbo (pressure F))"
    "tex (write_fbo (pressure F1)) = tex (read_fbo (pressure F))"
    by (simp_all add: F1)
  have "\<forall>k. k \<noteq> tex (read_fbo (pressure F)) \<longrightarrow> k \<noteq> tex (write_fbo (pressure F)) \<longrightarrow>
          bound_texture g' k = bound_texture g k"
    using ih k1 by (simp add: t1)
  moreover have "{tex (read_fbo (pressure F')), tex (write_fbo (pressure F'))} =
       {tex (read_fbo (pressure F)), tex (write_fbo (pressure F))}"
    using ih by (auto simp add: t1)
  moreover have "dye F' = dye F \<and> velocity F' = velocity F \<and> divergence F' = divergence F"
    using ih by (simp add: F1)
  ultimately show ?case by blast
qed

lemma solvePressure_keeps:
  assumes wf: "wf_fields g w h F" and sp: "solvePressure tx (F, g) = (F', g')"
  shows "dye F' = dye F \<and> velocity F' = velocity F \<and> divergence F' = divergence F \<and>
     (\<forall>k. k \<noteq> tex (read_fbo (pressure F)) \<longrightarrow> k \<noteq> tex (write_fbo (pressure F)) \<longrightarrow>
          bound_texture g' k = bound_texture g k) \<and>
     {tex (read_fbo (pressure F')), tex (write_fbo (pressure F'))} =
       {tex (read_fbo (pressure F)), tex (write_fbo (pressure F))}"
proof -
  define F0 where "F0 = F\<lparr>pressure := swap (pressure F)\<rparr>"
  define g0 where "g0 = clearTo (fbo (write_fbo (pressure F))) (0, 0, 0, 1) g"
  from sp have lp: "pressureLoop pressureIters tx (F0, g0) = (F', g')"
    by (simp add: solvePressure_def F0_def g0_def)
  have wf0: "wf_fields g0 w h F0"
    unfolding F0_def g0_def using wf by (simp add: wf_fields_clearTo)
  note e = pressureLoop_keeps[OF wf0 lp]
  have bt: "bound_texture g0 k = bound_texture g k" if "k \<noteq> tex (write_fbo (pressure F))" for k
    unfolding g0_def by (rule clear_keeps[OF wf field_fbos_mem(6) that])
  have t0: "tex (read_fbo (pressure F0)) = tex (write_fbo (pressure F))"
    "tex (write_fbo (pressure F0)) = tex (read_fbo (pressure F))"
    by (simp_all add: F0_def)
  have "\<forall>k. k \<noteq> tex (read_fbo (pressure F)) \<longrightarrow> k \<noteq> tex (write_fbo (pressure F)) \<longrightarrow>
          bound_texture g' k = bound_texture g k"
    using e bt by (simp add: t0)
  moreover have "{tex (read_fbo (pressure F')), tex (write_fbo (pressure F'))} =
       {tex (read_fbo (pressure F)), tex (write_fbo (pressure F))}"
    using e by (auto simp add: t0)
  moreover have "dye F' = dye F \<and> velocity F' = velocity F \<and> divergence F' = divergence F"
    using e by (simp add: F0_def)
  ultimately show ?thesis by blast
qed

text \<open>
  With \<open>uTexel = (0, 0)\<close>, a pressure at rest and a divergence at rest, every iteration
  leaves the pressure at rest.
\<close>

lemma pressureLoop_resting:
  assumes "wf_fields g w h F" and cbf: "color_buffer_float g" and w: "0 < w" and h: "0 < h"
    and "resting (bound_texture g (tex (read_fbo (pressure F))))"
    and "resting (bound_texture g (tex (divergence F)))"
    and "pressureLoop n (0, 0) (F, g) = (F', g')"
  shows "resting (bound_texture g' (tex (read_fbo (pressure F'))))"
  using assms(1,2,5,6,7)
proof (induction n arbitrary: F g)
  case 0
  then show ?case by simp
next
  case (Suc n)
  note wf = Suc.prems(1) and c = Suc.prems(2) and rp = Suc.prems(3) and rd = Suc.prems(4)
  note p = wf_fields_parts[OF wf] and d = wf_fields_distinct[OF wf]
  obtain F1 g1 where it: "pressureIter (0, 0) (F, g) = (F1, g1)"
    by (cases "pressureIter (0, 0) (F, g)")
  then have F1: "F1 = F\<lparr>pressure := swap (pressure F)\<rparr>"
    and g1: "g1 = bindAndDraw (Some (fbo (write_fbo (pressure F))))
        (pressureFrag (bound_texture g (tex (read_fbo (pressure F))))
                      (bound_texture g (tex (divergence F))) (0, 0)) g"
    by (simp_all add: pressureIter_def)
  from wf_pressureIter[OF it wf] have wf1: "wf_fields g1 w h F1" .
  have c1: "color_buffer_float g1" using c by (simp add: g1)
  from Suc.prems(5) it have lp: "pressureLoop n (0, 0) (F1, g1) = (F', g')" by simp
  have "bound_texture g1 (tex (write_fbo (pressure F))) = draw_texture (w, h)
        (pressureFrag (bound_texture g (tex (read_fbo (pressure F))))
                      (bound_texture g (tex (divergence F))) (0, 0))
        (bound_texture g (tex (write_fbo (pressure F))))"
    by (rule draw_target'[OF wf g1 field_fbos_mem(6) c])
  moreover have "resting (draw_texture (w, h)
        (pressureFrag (bound_texture g (tex (read_fbo (pressure F))))
                      (bound_texture g (tex (divergence F))) (0, 0))
        (bound_texture g (tex (write_fbo (pressure F)))))"
    by (rule resting_draw[OF wf_fbo_texture(2,3)[OF p(6)] w h])
       (simp add: wf_fbo_texture(4)[OF p(6)] pressureFrag_unset sample_resting[OF rp]
          sample_resting[OF rd])
  ultimately have rp1: "resting (bound_texture g1 (tex (read_fbo (pressure F1))))"
    by (simp add: F1)
  have "bound_texture g1 (tex (divergence F)) = bound_texture g (tex (divergence F))"
    using draw_keeps'[OF wf g1 field_fbos_mem(6), of "tex (divergence F)"] d by simp
  with rd have rd1: "resting (bound_texture g1 (tex (divergence F1)))" by (simp add: F1)
  from Suc.IH[OF wf1 c1 rp1 rd1 lp] show ?case .
qed

lemma solvePressure_resting:
  assumes wf: "wf_fields g w h F" and cbf: "color_buffer_float g" and w: "0 < w" and h: "0 < h"
    and rd: "resting (bound_texture g (tex (divergence F)))"
    and sp: "solvePressure (0, 0) (F, g) = (F', g')"
  shows "resting (bound_texture g' (tex (read_fbo (pressure F'))))"
proof -
  note p = wf_fields_parts[OF wf] and d = wf_fields_distinct[OF wf]
  define F0 where "F0 = F\<lparr>pressure := swap (pressure F)\<rparr>"
  define g0 where "g0 = clearTo (fbo (write_fbo (pressure F))) (0, 0, 0, 1) g"
  from sp have lp: "pressureLoop pressureIters (0, 0) (F0, g0) = (F', g')"
    by (simp add: solvePressure_def F0_def g0_def)
  have wf0: "wf_fields g0 w h F0"
    unfolding F0_def g0_def using wf by (simp add: wf_fields_clearTo)
  have c0: "color_buffer_float g0" using cbf by (simp add: g0_def)
  have "resting (bound_texture g0 (tex (write_fbo (pressure F))))"
    using wf_fbo_texture(2,3)[OF p(6)] w h
    by (simp add: g0_def bound_texture_clear[OF p(6) cbf] resting_def)
  then have rp0: "resting (bound_texture g0 (tex (read_fbo (pressure F0))))" by (simp add: F0_def)
  have "bound_texture g0 (tex (divergence F)) = bound_texture g (tex (divergence F))"
    unfolding g0_def using d by (intro clear_keeps[OF wf field_fbos_mem(6)]) simp
  with rd have rd0: "resting (bound_texture g0 (tex (divergence F0)))" by (simp add: F0_def)
  from pressureLoop_resting[OF wf0 c0 w h rp0 rd0 lp] show ?thesis .
qed


subsection \<open>The passes of a frame, flattened\<close>

lemma swap_swap [simp]: "swap (swap d) = d"
  by (simp add: swap_def)

lemma step_passes_flat:
  assumes sp: "step_passes dt tx (F, g) = (F', g')"
  obtains g1 g2 g3 F4 g4 g5 g6 g7 where
    "g1 = bindAndDraw (Some (fbo (write_fbo (velocity F))))
            (advectFrag (bound_texture g (tex (read_fbo (velocity F))))
                        (bound_texture g (tex (read_fbo (velocity F)))) tx dt) g"
    "g2 = bindAndDraw (Some (fbo (read_fbo (velocity F))))
            (clearFrag (bound_texture g1 (tex (write_fbo (velocity F)))) clearVel) g1"
    "g3 = bindAndDraw (Some (fbo (divergence F)))
            (divergenceFrag (bound_texture g2 (tex (read_fbo (velocity F)))) tx) g2"
    "solvePressure tx (F, g3) = (F4, g4)"
    "g5 = bindAndDraw (Some (fbo (write_fbo (velocity F4))))
            (gradientSubtractFrag (bound_texture g4 (tex (read_fbo (velocity F4))))
                                  (bound_texture g4 (tex (read_fbo (pressure F4)))) tx) g4"
    "g6 = bindAndDraw (Some (fbo (write_fbo (dye F4))))
            (advectFrag (bound_texture g5 (tex (read_fbo (dye F4))))
                        (bound_texture g5 (tex (write_fbo (velocity F4)))) tx dt) g5"
    "g7 = bindAndDraw (Some (fbo (read_fbo (dye F4))))
            (clearFrag (bound_texture g6 (tex (write_fbo (dye F4)))) clearDye) g6"
    "g' = bindAndDraw None (displayFrag (bound_texture g7 (tex (read_fbo (dye F4))))) g7"
    "F' = F4\<lparr>velocity := swap (velocity F4)\<rparr>"
proof -
  define g1 where "g1 = advect tx (write_fbo (velocity F)) (read_fbo (velocity F)) (read_fbo (velocity F)) dt g"
  define F1 where "F1 = F\<lparr>velocity := swap (velocity F)\<rparr>"
  define g2 where "g2 = applyDissipation (write_fbo (velocity F1)) (read_fbo (velocity F1)) clearVel g1"
  define F2 where "F2 = F1\<lparr>velocity := swap (velocity F1)\<rparr>"
  define g3 where "g3 = computeDivergence tx F2 g2"
  obtain F4 g4 where sv: "solvePressure tx (F2, g3) = (F4, g4)"
    by (cases "solvePressure tx (F2, g3)")
  obtain F5 g5 where sg: "subtractGradient tx (F4, g4) = (F5, g5)"
    by (cases "subtractGradient tx (F4, g4)")
  define g6 where "g6 = advect tx (write_fbo (dye F5)) (read_fbo (dye F5)) (read_fbo (velocity F5)) dt g5"
  define F6 where "F6 = F5\<lparr>dye := swap (dye F5)\<rparr>"
  define g7 where "g7 = applyDissipation (write_fbo (dye F6)) (read_fbo (dye F6)) clearDye g6"
  define F7 where "F7 = F6\<lparr>dye := swap (dye F6)\<rparr>"
  have "step_passes dt tx (F, g) = (F7, render F7 g7)"
    by (rule step_passes_unfold[OF sv sg g1_def F1_def g2_def F2_def g3_def g6_def F6_def g7_def F7_def])
  with sp have r: "F' = F7" "g' = render F7 g7" by auto
  have F2: "F2 = F" by (simp add: F2_def F1_def)
  from sg have F5: "F5 = F4\<lparr>velocity := swap (velocity F4)\<rparr>"
    and g5: "g5 = bindAndDraw (Some (fbo (write_fbo (velocity F4))))
            (gradientSubtractFrag (bound_texture g4 (tex (read_fbo (velocity F4))))
                                  (bound_texture g4 (tex (read_fbo (pressure F4)))) tx) g4"
    by (simp_all add: subtractGradient_def)
  have F7: "F7 = F5" by (simp add: F7_def F6_def)
  show ?thesis
  proof (rule that[of g1 g2 g3 F4 g4 g5 g6 g7])
    show "g1 = bindAndDraw (Some (fbo (write_fbo (velocity F))))
            (advectFrag (bound_texture g (tex (read_fbo (velocity F))))
                        (bound_texture g (tex (read_fbo (velocity F)))) tx dt) g"
      by (simp add: g1_def advect_def)
    show "g2 = bindAndDraw (Some (fbo (read_fbo (velocity F))))
            (clearFrag (bound_texture g1 (tex (write_fbo (velocity F)))) clearVel) g1"
      by (simp add: g2_def applyDissipation_def F1_def)
    show "g3 = bindAndDraw (Some (fbo (divergence F)))
            (divergenceFrag (bound_texture g2 (tex (read_fbo (velocity F)))) tx) g2"
      by (simp add: g3_def computeDivergence_def F2)
    show "solvePressure tx (F, g3) = (F4, g4)" using sv by (simp add: F2)
    show "g5 = bindAndDraw (Some (fbo (write_fbo (velocity F4))))
            (gradientSubtractFrag (bound_texture g4 (tex (read_fbo (velocity F4))))
                                  (bound_texture g4 (tex (read_fbo (pressure F4)))) tx) g4"
      by (rule g5)
    show "g6 = bindAndDraw (Some (fbo (write_fbo (dye F4))))
            (advectFrag (bound_texture g5 (tex (read_fbo (dye F4))))
                        (bound_texture g5 (tex (write_fbo (velocity F4)))) tx dt) g5"
      by (simp add: g6_def advect_def F5)
    show "g7 = bindAndDraw (Some (fbo (read_fbo (dye F4))))
            (clearFrag (bound_texture g6 (tex (write_fbo (dye F4)))) clearDye) g6"
      by (simp add: g7_def applyDissipation_def F6_def F5)
    show "g' = bindAndDraw None (displayFrag (bound_texture g7 (tex (read_fbo (dye F4))))) g7"
      by (simp add: r render_def F7 F5)
    show "F' = F4\<lparr>velocity := swap (velocity F4)\<rparr>"
      by (simp add: r F7 F5)
  qed
qed

lemma bound_texture_draw_screen [simp]:
  "bound_texture (bindAndDraw None frag g) k = bound_texture g k"
  by (simp add: bindAndDraw_def Let_def bound_texture_def)

lemma context_step_passes:
  assumes sp: "step_passes dt tx (F, g) = (F', g')"
  shows "color_buffer_float g' = color_buffer_float g"
proof -
  from step_passes_flat[OF sp] obtain g1 g2 g3 F4 g4 g5 g6 g7 where
    g1: "g1 = bindAndDraw (Some (fbo (write_fbo (velocity F))))
            (advectFrag (bound_texture g (tex (read_fbo (velocity F))))
                        (bound_texture g (tex (read_fbo (velocity F)))) tx dt) g" and
    g2: "g2 = bindAndDraw (Some (fbo (read_fbo (velocity F))))
            (clearFrag (bound_texture g1 (tex (write_fbo (velocity F)))) clearVel) g1" and
    g3: "g3 = bindAndDraw (Some (fbo (divergence F)))
            (divergenceFrag (bound_texture g2 (tex (read_fbo (velocity F)))) tx) g2" and
    sv: "solvePressure tx (F, g3) = (F4, g4)" and
    g5: "g5 = bindAndDraw (Some (fbo (write_fbo (velocity F4))))
            (gradientSubtractFrag (bound_texture g4 (tex (read_fbo (velocity F4))))
                                  (bound_texture g4 (tex (read_fbo (pressure F4)))) tx) g4" and
    g6: "g6 = bindAndDraw (Some (fbo (write_fbo (dye F4))))
            (advectFrag (bound_texture g5 (tex (read_fbo (dye F4))))
                        (bound_texture g5 (tex (write_fbo (velocity F4)))) tx dt) g5" and
    g7: "g7 = bindAndDraw (Some (fbo (read_fbo (dye F4))))
            (clearFrag (bound_texture g6 (tex (write_fbo (dye F4)))) clearDye) g6" and
    g': "g' = bindAndDraw None (displayFrag (bound_texture g7 (tex (read_fbo (dye F4))))) g7" and
    F': "F' = F4\<lparr>velocity := swap (velocity F4)\<rparr>"
    by blast
  have "color_buffer_float g' = color_buffer_float g4" by (simp add: g' g7 g6 g5)
  also have "\<dots> = color_buffer_float g3" by (rule context_solvePressure[OF sv])
  also have "\<dots> = color_buffer_float g" by (simp add: g3 g2 g1)
  finally show ?thesis .
qed


subsection \<open>What a frame leaves in the fields\<close>

text \<open>
  On a context that renders into the float textures, and with \<open>uTexel = (0, 0)\<close>, a
  frame multiplies the dye of every cell by \<open>clearDye\<close>, whatever the velocity; the
  divergence it computes is zero in every cell, and so is the pressure it solves for.
\<close>

lemma step_passes_unset:
  assumes wf: "wf_fields g w h F" and w: "0 < w" and h: "0 < h"
    and cbf: "color_buffer_float g"
    and sp: "step_passes dt (0, 0) (F, g) = (F', g')"
  shows "(\<forall>i j. in_grid w h i j \<longrightarrow>
        field_at g' (read_fbo (dye F')) i j = vec4_scale (field_at g (read_fbo (dye F)) i j) clearDye) \<and>
     (\<forall>i j. in_grid w h i j \<longrightarrow> field_at g' (divergence F') i j = (0, 0, 0, 1)) \<and>
     (\<forall>i j. in_grid w h i j \<longrightarrow> field_at g' (read_fbo (pressure F')) i j = (0, 0, 0, 1))"
proof -
  from step_passes_flat[OF sp] obtain g1 g2 g3 F4 g4 g5 g6 g7 where
    g1: "g1 = bindAndDraw (Some (fbo (write_fbo (velocity F))))
            (advectFrag (bound_texture g (tex (read_fbo (velocity F))))
                        (bound_texture g (tex (read_fbo (velocity F)))) (0, 0) dt) g" and
    g2: "g2 = bindAndDraw (Some (fbo (read_fbo (velocity F))))
            (clearFrag (bound_texture g1 (tex (write_fbo (velocity F)))) clearVel) g1" and
    g3: "g3 = bindAndDraw (Some (fbo (divergence F)))
            (divergenceFrag (bound_texture g2 (tex (read_fbo (velocity F)))) (0, 0)) g2" and
    sv: "solvePressure (0, 0) (F, g3) = (F4, g4)" and
    g5: "g5 = bindAndDraw (Some (fbo (write_fbo (velocity F4))))
            (gradientSubtractFrag (bound_texture g4 (tex (read_fbo (velocity F4))))
                                  (bound_texture g4 (tex (read_fbo (pressure F4)))) (0, 0)) g4" and
    g6: "g6 = bindAndDraw (Some (fbo (write_fbo (dye F4))))
            (advectFrag (bound_texture g5 (tex (read_fbo (dye F4))))
                        (bound_texture g5 (tex (write_fbo (velocity F4)))) (0, 0) dt) g5" and
    g7: "g7 = bindAndDraw (Some (fbo (read_fbo (dye F4))))
            (clearFrag (bound_texture g6 (tex (write_fbo (dye F4)))) clearDye) g6" and
    g': "g' = bindAndDraw None (displayFrag (bound_texture g7 (tex (read_fbo (dye F4))))) g7" and
    F': "F' = F4\<lparr>velocity := swap (velocity F4)\<rparr>"
    by blast
  have wf1: "wf_fields g1 w h F" unfolding g1 by (intro wf_fields_bindAndDraw wf)
  have wf2: "wf_fields g2 w h F" unfolding g2 by (intro wf_fields_bindAndDraw wf1)
  have wf3: "wf_fields g3 w h F" unfolding g3 by (intro wf_fields_bindAndDraw wf2)
  have c1: "color_buffer_float g1" using cbf by (simp add: g1)
  have c2: "color_buffer_float g2" using c1 by (simp add: g2)
  have c3: "color_buffer_float g3" using c2 by (simp add: g3)
  note e = solvePressure_keeps[OF wf3 sv]
  from wf_solvePressure[OF sv wf3] have wf4: "wf_fields g4 w h F4" .
  have c4: "color_buffer_float g4" using context_solvePressure[OF sv] c3 by simp
  have wf5: "wf_fields g5 w h F4" unfolding g5 by (intro wf_fields_bindAndDraw wf4)
  have c5: "color_buffer_float g5" using c4 by (simp add: g5)
  have wf6: "wf_fields g6 w h F4" unfolding g6 by (intro wf_fields_bindAndDraw wf5)
  have c6: "color_buffer_float g6" using c5 by (simp add: g6)
  note p = wf_fields_parts[OF wf] and p2 = wf_fields_parts[OF wf2] and p3 = wf_fields_parts[OF wf3]
    and p4 = wf_fields_parts[OF wf4] and p5 = wf_fields_parts[OF wf5] and p6 = wf_fields_parts[OF wf6]
  note d = wf_fields_distinct[OF wf] and d4 = wf_fields_distinct[OF wf4]
  from e have F4: "dye F4 = dye F" "velocity F4 = velocity F" "divergence F4 = divergence F" by simp_all
  let ?Td = "bound_texture g (tex (read_fbo (dye F)))"
  txt \<open>divergence\<close>
  let ?D3 = "bound_texture g3 (tex (divergence F))"
  have D3: "?D3 = draw_texture (w, h)
      (divergenceFrag (bound_texture g2 (tex (read_fbo (velocity F)))) (0, 0))
      (bound_texture g2 (tex (divergence F)))"
    by (rule draw_target'[OF wf2 g3 field_fbos_mem(7) c2])
  have r3: "resting ?D3"
    unfolding D3
    by (rule resting_draw[OF wf_fbo_texture(2,3)[OF p2(7)] w h])
       (simp add: wf_fbo_texture(4)[OF p2(7)] divergenceFrag_unset)
  have Td3: "bound_texture g3 (tex (read_fbo (dye F))) = ?Td"
  proof -
    have "bound_texture g3 (tex (read_fbo (dye F))) = bound_texture g2 (tex (read_fbo (dye F)))"
      unfolding g3 by (rule draw_keeps[OF wf2]) (simp_all add: d)
    also have "\<dots> = bound_texture g1 (tex (read_fbo (dye F)))"
      unfolding g2 by (rule draw_keeps[OF wf1]) (simp_all add: d)
    also have "\<dots> = ?Td"
      unfolding g1 by (rule draw_keeps[OF wf]) (simp_all add: d)
    finally show ?thesis .
  qed
  txt \<open>pressure\<close>
  have r4: "resting (bound_texture g4 (tex (read_fbo (pressure F4))))"
    by (rule solvePressure_resting[OF wf3 c3 w h r3 sv])
  have Td4: "bound_texture g4 (tex (read_fbo (dye F))) = ?Td"
    using e d Td3 by simp
  have D4: "bound_texture g4 (tex (divergence F)) = ?D3"
    using e wf_fields_distinct[OF wf3] by auto
  txt \<open>gradient subtraction\<close>
  have keep5: "bound_texture g5 k = bound_texture g4 k" if "k \<noteq> tex (write_fbo (velocity F))" for k
    using draw_keeps'[OF wf4 g5 field_fbos_mem(4), of k] that by (simp add: F4)
  have Td5: "bound_texture g5 (tex (read_fbo (dye F))) = ?Td"
    using keep5[of "tex (read_fbo (dye F))"] d by (simp add: Td4)
  txt \<open>advect dye\<close>
  let ?V5 = "bound_texture g5 (tex (write_fbo (velocity F)))"
  let ?Y6 = "bound_texture g6 (tex (write_fbo (dye F)))"
  have Y6: "?Y6 = draw_texture (w, h) (advectFrag ?Td ?V5 (0, 0) dt) (bound_texture g5 (tex (write_fbo (dye F))))"
    using draw_target'[OF wf5 g6 field_fbos_mem(2) c5] by (simp add: F4 Td5)
  have y6: "texels ?Y6 i j = texels ?Td i j" if "in_grid w h i j" for i j
    unfolding Y6 using wf_fbo_texture(2,3,4)[OF p5(2)] that
    by (simp add: F4 texels_draw advectFrag_unset
        sample_pixel_centre[OF wf_fbo_texture(2,3)[OF p(1)]])
  have keep6: "bound_texture g6 k = bound_texture g5 k" if "k \<noteq> tex (write_fbo (dye F))" for k
    using draw_keeps'[OF wf5 g6 field_fbos_mem(2), of k] that by (simp add: F4)
  txt \<open>dissipate dye\<close>
  let ?Y7 = "bound_texture g7 (tex (read_fbo (dye F)))"
  have Y7: "?Y7 = draw_texture (w, h) (clearFrag ?Y6 clearDye) (bound_texture g6 (tex (read_fbo (dye F))))"
    using draw_target'[OF wf6 g7 field_fbos_mem(1) c6] by (simp add: F4)
  have y7: "texels ?Y7 i j = vec4_scale (texels ?Td i j) clearDye" if "in_grid w h i j" for i j
  proof -
    have "tex_w ?Y6 = w" "tex_h ?Y6 = h"
      using wf_fbo_texture(2,3)[OF p6(2)] by (simp_all add: F4)
    from sample_pixel_centre[OF this that] y6[OF that]
    show ?thesis
      unfolding Y7 using wf_fbo_texture(2,3,4)[OF p6(1)] that
      by (simp add: F4 texels_draw clearFrag_def Let_def)
  qed
  have keep7: "bound_texture g7 k = bound_texture g6 k" if "k \<noteq> tex (read_fbo (dye F))" for k
    using draw_keeps'[OF wf6 g7 field_fbos_mem(1), of k] that by (simp add: F4)
  have keep: "bound_texture g' k = bound_texture g4 k"
    if "k \<noteq> tex (write_fbo (velocity F))" "k \<noteq> tex (write_fbo (dye F))"
       "k \<noteq> tex (read_fbo (dye F))" for k
    using that by (simp add: g' keep7 keep6 keep5)
  have "\<forall>i j. in_grid w h i j \<longrightarrow>
        field_at g' (read_fbo (dye F')) i j = vec4_scale (field_at g (read_fbo (dye F)) i j) clearDye"
    using y7 by (simp add: F' F4 g' field_at_def)
  moreover have "\<forall>i j. in_grid w h i j \<longrightarrow> field_at g' (divergence F') i j = (0, 0, 0, 1)"
  proof -
    have "bound_texture g' (tex (divergence F)) = ?D3"
      using keep[of "tex (divergence F)"] d by (simp add: D4)
    then show ?thesis
      using r3 wf_fbo_texture(2,3)[OF p3(7)] by (simp add: F' F4 field_at_def resting_def)
  qed
  moreover have "\<forall>i j. in_grid w h i j \<longrightarrow> field_at g' (read_fbo (pressure F')) i j = (0, 0, 0, 1)"
  proof -
    have "bound_texture g' (tex (read_fbo (pressure F4))) = bound_texture g4 (tex (read_fbo (pressure F4)))"
      using d4[unfolded F4] by (intro keep) auto
    then show ?thesis
      using r4 wf_fbo_texture(2,3)[OF p4(5)] by (simp add: F' field_at_def resting_def)
  qed
  ultimately show ?thesis by blast
qed


subsection \<open>Frames and splats on a handle\<close>

lemma frame_fields:
  assumes wf: "wf_sim s" and cbf: "color_buffer_float (gl s)" and af: "animation_frame b s = Inr s'"
  shows "width s' = width s \<and> height s' = height s \<and> color_buffer_float (gl s') \<and>
     (\<forall>i j. in_grid (width s) (height s) i j \<longrightarrow>
        dye_at s' i j = vec4_scale (dye_at s i j) clearDye) \<and>
     (\<forall>i j. in_grid (width s) (height s) i j \<longrightarrow> divergence_at s' i j = (0, 0, 0, 1)) \<and>
     (\<forall>i j. in_grid (width s) (height s) i j \<longrightarrow> pressure_at s' i j = (0, 0, 0, 1))"
proof -
  let ?s0 = "s\<lparr>page := (page s)\<lparr>raf_pending := raf_pending (page s) - 1\<rparr>\<rparr>"
  from wf have pos: "raf_pending (page s) \<noteq> 0" and w: "0 < width s" and h: "0 < height s"
    and tx: "texel s = (0, 0)"
    by (simp_all add: wf_sim_def)
  with af have st: "step b ?s0 = Inr s'" by (simp add: animation_frame_def)
  from wf obtain F where F: "fbos ?s0 = Some F" and wff: "wf_fields (gl s) (width s) (height s) F"
    by (auto simp add: wf_sim_def split: option.splits)
  from step_Inr[OF F, of b] obtain F' g' where
    sp: "step_passes (min 0.032 ((now b - lastT ?s0) / 1000)) (texel ?s0) (F, gl ?s0) = (F', g')" and
    st': "step b ?s0 = Inr (?s0\<lparr>lastT := now b, fbos := Some F', gl := g',
                       page := (page ?s0)\<lparr>raf_pending := raf_pending (page ?s0) + 1\<rparr>\<rparr>)"
    by blast
  from st st' have s': "s' = ?s0\<lparr>lastT := now b, fbos := Some F', gl := g',
                       page := (page ?s0)\<lparr>raf_pending := raf_pending (page ?s0) + 1\<rparr>\<rparr>"
    by simp
  from sp tx have sp': "step_passes (min 0.032 ((now b - lastT s) / 1000)) (0, 0) (F, gl s) = (F', g')"
    by simp
  from F have Fs: "fbos s = Some F" by simp
  have 1: "width s' = width s" "height s' = height s" by (simp_all add: s')
  have 2: "color_buffer_float (gl s')" using context_step_passes[OF sp'] cbf by (simp add: s')
  from step_passes_unset[OF wff w h cbf sp'] 1 2 show ?thesis
    by (simp add: dye_at_def divergence_at_def pressure_at_def s' Fs)
qed

text \<open>
  On a context without the extension every field keeps the zero-filled storage it was
  allocated with.
\<close>

lemma fields_untouched_without_extension:
  assumes wf: "wf_sim s" and no: "\<not> color_buffer_float (gl s)"
  shows "dye_at s i j = (0, 0, 0, 0)" "velocity_at s i j = (0, 0, 0, 1)"
    "pressure_at s i j = (0, 0, 0, 1)" "divergence_at s i j = (0, 0, 0, 1)"
proof -
  from wf obtain F where F: "fbos s = Some F" and wff: "wf_fields (gl s) (width s) (height s) F"
    by (auto simp add: wf_sim_def split: option.splits)
  note p = wf_fields_parts[OF wff]
  show "dye_at s i j = (0, 0, 0, 0)" "velocity_at s i j = (0, 0, 0, 1)"
    "pressure_at s i j = (0, 0, 0, 1)" "divergence_at s i j = (0, 0, 0, 1)"
    by (simp_all add: dye_at_def velocity_at_def pressure_at_def divergence_at_def F
        pristine_field[OF p(1) no] pristine_field[OF p(3) no] pristine_field[OF p(5) no]
        pristine_field[OF p(7) no])
qed

lemma animation_frame_context:
  assumes wf: "wf_sim s" and af: "animation_frame b s = Inr s'"
  shows "color_buffer_float (gl s') = color_buffer_float (gl s)"
proof -
  let ?s0 = "s\<lparr>page := (page s)\<lparr>raf_pending := raf_pending (page s) - 1\<rparr>\<rparr>"
  from wf have pos: "raf_pending (page s) \<noteq> 0" by (simp add: wf_sim_def)
  with af have st: "step b ?s0 = Inr s'" by (simp add: animation_frame_def)
  from wf obtain F where F: "fbos ?s0 = Some F"
    by (auto simp add: wf_sim_def split: option.splits)
  from step_Inr[OF F, of b] obtain F' g' where
    sp: "step_passes (min 0.032 ((now b - lastT ?s0) / 1000)) (texel ?s0) (F, gl ?s0) = (F', g')" and
    st': "step b ?s0 = Inr (?s0\<lparr>lastT := now b, fbos := Some F', gl := g',
                       page := (page ?s0)\<lparr>raf_pending := raf_pending (page ?s0) + 1\<rparr>\<rparr>)"
    by blast
  from st st' have "gl s' = g'" by auto
  with context_step_passes[OF sp] show ?thesis by simp
qed


lemma splat_keeps:
  assumes "splat x y c r f s = Inr s'"
  shows "width s' = width s" "height s' = height s" "dpr s' = dpr s" "texel s' = texel s"
    "page s' = page s" "canvas_attached s' = canvas_attached s"
  using assms by (auto simp add: splat_def Let_def split: option.splits)

lemma splat_context:
  assumes "splat x y c r f s = Inr s'"
  shows "color_buffer_float (gl s') = color_buffer_float (gl s)"
  using assms by (auto simp add: splat_def Let_def split: option.splits)

lemma splat_dye:
  assumes wf: "wf_sim s" and cbf: "color_buffer_float (gl s)" and sp: "splat x y c r f s = Inr s'"
    and ij: "in_grid (width s) (height s) i j"
  shows "dye_at s' i j =
     vec4_add (dye_at s i j) (splat_stamp (width s) (height s) (x, y, c, r, f) i j)"
proof -
  from wf obtain F where F: "fbos s = Some F" and wff: "wf_fields (gl s) (width s) (height s) F"
    by (auto simp add: wf_sim_def split: option.splits)
  define cr where "cr = max 0.002 (case r of None \<Rightarrow> 0.04 | Some r' \<Rightarrow> r')"
  define g1 where "g1 = bindAndDraw (Some (fbo (write_fbo (dye F))))
                   (splatFrag (bound_texture (gl s) (tex (read_fbo (dye F)))) (x, y) c cr) (gl s)"
  define F1 where "F1 = F\<lparr>dye := swap (dye F)\<rparr>"
  define fv where "fv = (case f of None \<Rightarrow> (0, 0) | Some v \<Rightarrow> v)"
  define g2 where "g2 = bindAndDraw (Some (fbo (write_fbo (velocity F1))))
                   (splatVelFrag (bound_texture g1 (tex (read_fbo (velocity F1)))) (x, y) fv cr) g1"
  define F2 where "F2 = F1\<lparr>velocity := swap (velocity F1)\<rparr>"
  have s': "s' = s\<lparr>fbos := Some F2, gl := g2\<rparr>"
    using splat_unfold[OF F cr_def g1_def F1_def fv_def g2_def F2_def] sp by simp
  note p = wf_fields_parts[OF wff] and d = wf_fields_distinct[OF wff]
  have wf1: "wf_fields g1 (width s) (height s) F" unfolding g1_def by (rule wf_fields_bindAndDraw[OF wff])
  let ?Td = "bound_texture (gl s) (tex (read_fbo (dye F)))"
  have g2': "g2 = bindAndDraw (Some (fbo (write_fbo (velocity F))))
                   (splatVelFrag (bound_texture g1 (tex (read_fbo (velocity F)))) (x, y) fv cr) g1"
    by (simp add: g2_def F1_def)
  have "dye_at s' i j = field_at g2 (write_fbo (dye F)) i j"
    by (simp add: dye_at_def s' F2_def F1_def field_at_def)
  also have "\<dots> = field_at g1 (write_fbo (dye F)) i j"
    using draw_keeps'[OF wf1 g2' field_fbos_mem(4), of "tex (write_fbo (dye F))"] d
    by (simp add: field_at_def)
  also have "\<dots> = store_fmt RGBA16F (splatFrag ?Td (x, y) c cr (pixel_uv (width s) (height s) i j))"
    unfolding g1_def by (rule field_at_draw[OF p(2) p(8) cbf ij])
  also have "\<dots> = vec4_add (dye_at s i j) (splat_stamp (width s) (height s) (x, y, c, r, f) i j)"
    using sample_pixel_centre[OF wf_fbo_texture(2,3)[OF p(1)] ij]
    by (cases c) (simp add: splatFrag_def splat_stamp_def Let_def dye_at_def F field_at_def cr_def)
  finally show ?thesis .
qed


subsection \<open>Sums over the grid\<close>

lemma grid_sum_add:
  "grid_sum w h (\<lambda>i j. vec4_add (f i j) (g i j)) = vec4_add (grid_sum w h f) (grid_sum w h g)"
  by (simp add: grid_sum_def sum.distrib)

lemma grid_sum_scale:
  "grid_sum w h (\<lambda>i j. vec4_scale (f i j) k) = vec4_scale (grid_sum w h f) k"
  by (simp add: grid_sum_def sum_distrib_right)

lemma grid_sum_cong:
  assumes "\<And>i j. in_grid w h i j \<Longrightarrow> f i j = g i j"
  shows "grid_sum w h f = grid_sum w h g"
proof -
  have "\<And>i j. i \<in> {0..<w} \<Longrightarrow> j \<in> {0..<h} \<Longrightarrow> f i j = g i j"
    using assms by (simp add: in_grid_def)
  then show ?thesis by (simp add: grid_sum_def)
qed

lemma vec4_add_assoc: "vec4_add (vec4_add A B) C = vec4_add A (vec4_add B C)"
  by (cases A; cases B; cases C) simp

lemma vec4_add_zero [simp]: "vec4_add A (0, 0, 0, 0) = A"
  by (cases A) simp

subsection \<open>Calm runs\<close>

lemma calm_reachable: "calm s \<Longrightarrow> reachable s"
  by (induction rule: calm.induct) (auto intro: reachable.intros)

lemma init_fields_zero:
  assumes "initFluid b opts pg = Inr s"
  shows "dye_at s i j = (0, 0, 0, 0)" "velocity_at s i j = (0, 0, 0, 1)"
proof -
  from initFluid_Inr[OF assms] obtain g d where
    s: "s = (snd (setSize b
            \<lparr>gl = g, page = pg\<lparr>container_children := container_children pg + 1\<rparr>,
             canvas_attached = True, canvas_size = (300, 150), dpr = d,
             width = 0, height = 0, fbos = None, texel = (0, 0), lastT = now b\<rparr>))
          \<lparr>page := pg\<lparr>container_children := container_children pg + 1,
                        raf_pending := raf_pending pg + 1\<rparr>\<rparr>"
    by blast
  define w where "w = max 2 \<lfloor>real_of_int (clientWidth b) * d\<rfloor>"
  define h where "h = max 2 \<lfloor>real_of_int (clientHeight b) * d\<rfloor>"
  obtain F g' where al: "alloc_fields (g\<lparr>screen := (\<lambda>i j. (0, 0, 0, 0))\<rparr>) w h = (F, g')"
    by (cases "alloc_fields (g\<lparr>screen := (\<lambda>i j. (0, 0, 0, 0))\<rparr>) w h")
  have "w \<noteq> 0" by (simp add: w_def)
  then have "fbos s = Some F" "gl s = g'"
    by (simp_all add: s setSize_alloc Let_def w_def[symmetric] h_def[symmetric] al)
  with zero_alloc_fields[OF al, of i j]
  show "dye_at s i j = (0, 0, 0, 0)" "velocity_at s i j = (0, 0, 0, 1)"
    by (simp_all add: dye_at_def velocity_at_def)
qed

lemma total_dye_splat:
  assumes wf: "wf_sim s" and cbf: "color_buffer_float (gl s)" and sp: "splat x y c r f s = Inr s'"
  shows "total_dye s' =
     vec4_add (total_dye s) (grid_sum (width s) (height s) (splat_stamp (width s) (height s) (x, y, c, r, f)))"
proof -
  have "total_dye s' = grid_sum (width s) (height s) (dye_at s')"
    by (simp add: total_dye_def splat_keeps[OF sp])
  also have "\<dots> = grid_sum (width s) (height s)
      (\<lambda>i j. vec4_add (dye_at s i j) (splat_stamp (width s) (height s) (x, y, c, r, f) i j))"
    by (rule grid_sum_cong) (rule splat_dye[OF wf cbf sp])
  finally show ?thesis by (simp add: grid_sum_add total_dye_def)
qed

lemma total_dye_splat_all:
  assumes "wf_sim s" "color_buffer_float (gl s)" "splat_all ps s = Inr s'"
  shows "total_dye s' = vec4_add (total_dye s) (injected (width s) (height s) ps) \<and>
     width s' = width s \<and> height s' = height s"
  using assms
proof (induction ps arbitrary: s)
  case Nil
  then show ?case by simp
next
  case (Cons p ps)
  obtain x y c r f where p: "p = (x, y, c, r, f)" by (cases p)
  from Cons.prems(3) obtain s1 where 1: "splat x y c r f s = Inr s1" and 2: "splat_all ps s1 = Inr s'"
    by (auto simp add: p split: sum.splits)
  from wf_sim_splat[OF Cons.prems(1) 1] have wf1: "wf_sim s1" .
  from splat_context[OF 1] Cons.prems(2) have c1: "color_buffer_float (gl s1)" by simp
  from Cons.IH[OF wf1 c1 2] total_dye_splat[OF Cons.prems(1,2) 1] splat_keeps(1,2)[OF 1]
  show ?case by (simp add: p vec4_add_assoc)
qed

lemma calm_splat_all:
  assumes "calm s" "\<forall>p \<in> set ps. zero_force (snd (snd (snd (snd p))))" "splat_all ps s = Inr s'"
  shows "calm s'"
  using assms
proof (induction ps arbitrary: s)
  case Nil
  then show ?case by simp
next
  case (Cons p ps)
  obtain x y c r f where p: "p = (x, y, c, r, f)" by (cases p)
  from Cons.prems(3) obtain s1 where 1: "splat x y c r f s = Inr s1" and 2: "splat_all ps s1 = Inr s'"
    by (auto simp add: p split: sum.splits)
  from Cons.prems(2) have zf: "zero_force f" by (simp add: p)
  from calm.splat[OF Cons.prems(1) zf 1] have "calm s1" .
  from Cons.IH[OF this _ 2] Cons.prems(2) show ?case by simp
qed

lemma splat_all_context:
  "splat_all ps s = Inr s' \<Longrightarrow> color_buffer_float (gl s') = color_buffer_float (gl s)"
proof (induction ps arbitrary: s)
  case Nil
  then show ?case by simp
next
  case (Cons p ps)
  obtain x y c r f where p: "p = (x, y, c, r, f)" by (cases p)
  from Cons.prems obtain s1 where 1: "splat x y c r f s = Inr s1" and 2: "splat_all ps s1 = Inr s'"
    by (auto simp add: p split: sum.splits)
  from Cons.IH[OF 2] splat_context[OF 1] show ?case by simp
qed

lemma total_dye_frame:
  assumes "wf_sim s" "color_buffer_float (gl s)" "animation_frame b s = Inr s'"
  shows "total_dye s' = vec4_scale (total_dye s) clearDye"
proof -
  note ff = frame_fields[OF assms]
  have "total_dye s' = grid_sum (width s) (height s) (dye_at s')"
    using ff by (simp add: total_dye_def)
  also have "\<dots> = grid_sum (width s) (height s) (\<lambda>i j. vec4_scale (dye_at s i j) clearDye)"
    by (rule grid_sum_cong) (use ff in simp)
  finally show ?thesis by (simp add: grid_sum_scale total_dye_def)
qed

lemma splat_all_Inr:
  "wf_sim s \<Longrightarrow> \<exists>s'. splat_all ps s = Inr s'"
proof (induction ps arbitrary: s)
  case Nil
  then show ?case by simp
next
  case (Cons p ps)
  obtain x y c r f where p: "p = (x, y, c, r, f)" by (cases p)
  from Cons.prems obtain F where "fbos s = Some F"
    by (auto simp add: wf_sim_def split: option.splits)
  from splat_Inr[OF this] obtain s1 where 1: "splat x y c r f s = Inr s1" by blast
  from Cons.IH[OF wf_sim_splat[OF Cons.prems 1]] 1 show ?case by (simp add: p)
qed

text \<open>
  Claim C5, as the code has it: on a context that renders into the float textures (one
  with \<^verbatim>\<open>EXT_color_buffer_float\<close>), starting from a fresh handle and applying no
  force, take the dye total at the moment a frame callback starts. The frame and any
  sequence of splats without force after it run without raising and bring the total to
  0.995 times the old total plus the dye mass the splats inject, channel by channel; and
  the state reached is again one the claim applies to. (In real arithmetic the equality
  is exact.)
\<close>

theorem dye_decays_and_accumulates:
  assumes "calm s" and "color_buffer_float (gl s)"
    and "\<forall>p \<in> set ps. zero_force (snd (snd (snd (snd p))))"
  shows "\<exists>s1 s2. animation_frame b s = Inr s1 \<and> splat_all ps s1 = Inr s2 \<and>
           total_dye s2 =
             vec4_add (vec4_scale (total_dye s) 0.995) (injected (width s) (height s) ps) \<and>
           calm s2 \<and> color_buffer_float (gl s2)"
proof -
  from assms(1) have wf: "wf_sim s"
    by (simp add: reachable_wf calm_reachable)
  from animation_frame_runs[OF wf, of b] obtain s1 where f: "animation_frame b s = Inr s1" by blast
  from calm.frame[OF assms(1) f] have c1: "calm s1" .
  then have wf1: "wf_sim s1" by (simp add: reachable_wf calm_reachable)
  from splat_all_Inr[OF wf1, of ps] obtain s2 where sa: "splat_all ps s1 = Inr s2" by blast
  from frame_fields[OF wf assms(2) f]
  have wh: "width s1 = width s" "height s1 = height s" and cb1: "color_buffer_float (gl s1)"
    by simp_all
  have cb2: "color_buffer_float (gl s2)" using splat_all_context[OF sa] cb1 by simp
  from total_dye_splat_all[OF wf1 cb1 sa] total_dye_frame[OF wf assms(2) f]
    calm_splat_all[OF c1 assms(3) sa] cb2
  have "total_dye s2 =
          vec4_add (vec4_scale (total_dye s) 0.995) (injected (width s) (height s) ps) \<and> calm s2 \<and>
        color_buffer_float (gl s2)"
    by (simp add: wh clearDye_def)
  with f sa show ?thesis by blast
qed


text \<open>
  Claim C6: on a reachable handle a splat without the force argument returns, and
  leaves the velocity of every cell of the grid as it was.
\<close>

theorem splat_without_force_keeps_velocity:
  assumes "reachable s" and "in_grid (width s) (height s) i j"
  shows "\<exists>s'. splat x y c r None s = Inr s' \<and> velocity_at s' i j = velocity_at s i j"
proof -
  from reachable_wf[OF assms(1)] have wf: "wf_sim s" .
  then obtain F where "fbos s = Some F" by (auto simp add: wf_sim_def split: option.splits)
  from splat_Inr[OF this] obtain s' where sp: "splat x y c r None s = Inr s'" by blast
  have "zero_force None" by (simp add: zero_force_def)
  from splat_no_force_velocity[OF wf this sp assms(2)] sp show ?thesis by blast
qed

lemma ex_splat: "splat (1 / 4) (1 / 4) (1, 0, 0) None None ex_sim = Inr ex_splatted"
  using splat_Inr[OF ex_sim_fbos, of "1 / 4" "1 / 4" "(1, 0, 0)" None None]
  by (auto simp add: ex_splatted_def)

lemma ex_frame: "animation_frame ex_browser ex_sim = Inr ex_framed"
  using animation_frame_runs[OF reachable_wf[OF reachable_ex_sim], of ex_browser]
  by (auto simp add: ex_framed_def)

lemma calm_ex_sim: "calm ex_sim"
  by (rule calm.init[OF ex_init])

lemma ex_resplat: "splat_all [(1 / 4, 1 / 4, (1, 0, 0), None, None)] ex_framed = Inr ex_resplatted"
proof -
  have "wf_sim ex_framed"
    by (rule wf_sim_animation_frame[OF reachable_wf[OF reachable_ex_sim] ex_frame])
  then obtain F where "fbos ex_framed = Some F" by (auto simp add: wf_sim_def split: option.splits)
  from splat_Inr[OF this, of "1 / 4" "1 / 4" "(1, 0, 0)" None None]
  show ?thesis by (auto simp add: ex_resplatted_def)
qed

theorem splat_without_force_keeps_velocity_witness:
  "in_grid (width ex_sim) (height ex_sim) 0 0 \<and>
   splat (1 / 4) (1 / 4) (1, 0, 0) None None ex_sim = Inr ex_splatted \<and>
   velocity_at ex_splatted 0 0 = velocity_at ex_sim 0 0"
proof -
  have ij: "in_grid (width ex_sim) (height ex_sim) 0 0" by (simp add: ex_sim_facts in_grid_def)
  from splat_without_force_keeps_velocity[OF reachable_ex_sim ij, of "1 / 4" "1 / 4" "(1, 0, 0)" None]
  show ?thesis using ij by (simp add: ex_splat)
qed

theorem dye_decays_and_accumulates_witness:
  "calm ex_sim \<and> color_buffer_float (gl ex_sim) \<and> zero_force None \<and>
   animation_frame ex_browser ex_sim = Inr ex_framed \<and>
   splat_all [(1 / 4, 1 / 4, (1, 0, 0), None, None)] ex_framed = Inr ex_resplatted \<and>
   total_dye ex_resplatted =
     vec4_add (vec4_scale (total_dye ex_sim) 0.995)
       (injected 2 2 [(1 / 4, 1 / 4, (1, 0, 0), None, None)]) \<and>
   calm ex_resplatted"
proof -
  have z: "zero_force None" by (simp add: zero_force_def)
  then have zf: "\<forall>p \<in> set [(1 / 4, 1 / 4, (1, 0, 0), None, None)].
      zero_force (snd (snd (snd (snd (p :: splat_args)))))" by simp
  from dye_decays_and_accumulates[OF calm_ex_sim ex_sim_facts(8) zf, of ex_browser]
  obtain s1 s2 where "animation_frame ex_browser ex_sim = Inr s1"
    "splat_all [(1 / 4, 1 / 4, (1, 0, 0), None, None)] s1 = Inr s2"
    "total_dye s2 =
       vec4_add (vec4_scale (total_dye ex_sim) 0.995)
         (injected (width ex_sim) (height ex_sim) [(1 / 4, 1 / 4, (1, 0, 0), None, None)])"
    "calm s2" by blast
  moreover from this(1) ex_frame have "s1 = ex_framed" by simp
  moreover from this calculation(2) ex_resplat have "s2 = ex_resplatted" by simp
  ultimately have "total_dye ex_resplatted =
     vec4_add (vec4_scale (total_dye ex_sim) 0.995)
       (injected 2 2 [(1 / 4, 1 / 4, (1, 0, 0), None, None)]) \<and>
   calm ex_resplatted" by (simp add: ex_sim_facts)
  with calm_ex_sim ex_frame z ex_resplat ex_sim_facts(8) show ?thesis by blast
qed

lemma ex_noext_sim_eq:
  "ex_noext_sim = ex_sim\<lparr>gl := (gl ex_sim)\<lparr>color_buffer_float := False\<rparr>\<rparr>"
  unfolding ex_noext_sim_def ex_noext_browser_def by (simp add: initFluid_extensions ex_init)

lemma ex_noext_init: "initFluid ex_noext_browser None ex_page = Inr ex_noext_sim"
  unfolding ex_noext_sim_eq ex_noext_browser_def by (simp add: initFluid_extensions ex_init)

lemma ex_noext_frame: "animation_frame ex_noext_browser ex_noext_sim = Inr ex_noext_framed"
  using animation_frame_runs[OF wf_sim_init[OF ex_noext_init], of ex_noext_browser]
  by (auto simp add: ex_noext_framed_def)

lemma ex_noext_resplat:
  "splat_all [(1 / 4, 1 / 4, (1, 0, 0), None, None)] ex_noext_framed = Inr ex_noext_resplatted"
  using splat_all_Inr[OF wf_sim_animation_frame[OF wf_sim_init[OF ex_noext_init] ex_noext_frame],
      of "[(1 / 4, 1 / 4, (1, 0, 0), None, None)]"]
  unfolding ex_noext_resplatted_def by auto

lemma wf_sim_splat_all: "wf_sim s \<Longrightarrow> splat_all ps s = Inr s' \<Longrightarrow> wf_sim s'"
proof (induction ps arbitrary: s)
  case Nil
  then show ?case by simp
next
  case (Cons p ps)
  obtain x y c r f where p: "p = (x, y, c, r, f)" by (cases p)
  from Cons.prems(2) obtain s1 where 1: "splat x y c r f s = Inr s1" and 2: "splat_all ps s1 = Inr s'"
    by (auto simp add: p split: sum.splits)
  from Cons.IH[OF wf_sim_splat[OF Cons.prems(1) 1] 2] show ?case .
qed

lemma total_dye_without_extension:
  assumes "wf_sim s" "\<not> color_buffer_float (gl s)"
  shows "total_dye s = (0, 0, 0, 0)"
  by (simp add: total_dye_def grid_sum_def fields_untouched_without_extension(1)[OF assms])

lemma grid_sum_2_2:
  "grid_sum 2 2 f = vec4_add (vec4_add (f 0 0) (f 0 1)) (vec4_add (f 1 0) (f 1 1))"
proof -
  have e: "{0..<2::int} = {0, 1}" by auto
  show ?thesis
    by (cases "f 0 0"; cases "f 0 1"; cases "f 1 0"; cases "f 1 1") (simp add: grid_sum_def e)
qed

lemma ex_injected: "1 \<le> x_of (injected 2 2 [(1 / 4, 1 / 4, (1, 0, 0), None, None)])"
proof -
  have "x_of (splat_stamp 2 2 (1 / 4, 1 / 4, (1, 0, 0), None, None) 0 0) = 1"
    by (simp add: splat_stamp_def splat_falloff_def pixel_uv_def Let_def)
  moreover have "0 \<le> x_of (splat_stamp 2 2 (1 / 4, 1 / 4, (1, 0, 0), None, None) i j)" for i j
    by (simp add: splat_stamp_def splat_falloff_def Let_def)
  ultimately show ?thesis
    using add_nonneg_nonneg[of "x_of (splat_stamp 2 2 (1 / 4, 1 / 4, (1, 0, 0), None, None) 0 1)"
        "x_of (splat_stamp 2 2 (1 / 4, 1 / 4, (1, 0, 0), None, None) 1 0) +
         x_of (splat_stamp 2 2 (1 / 4, 1 / 4, (1, 0, 0), None, None) 1 1)"]
      add_nonneg_nonneg[of "x_of (splat_stamp 2 2 (1 / 4, 1 / 4, (1, 0, 0), None, None) 1 0)"
        "x_of (splat_stamp 2 2 (1 / 4, 1 / 4, (1, 0, 0), None, None) 1 1)"]
    by (simp add: grid_sum_2_2)
qed

text \<open>
  Claim C5 as stated fails: in a browser without \<^verbatim>\<open>EXT_color_buffer_float\<close> the fresh
  handle, a frame and a red splat without force run without raising, the splat injects
  dye mass of at least 1 in the red channel, and the dye total is zero before and zero
  after.
\<close>

theorem no_dye_without_color_buffer_float:
  "initFluid ex_noext_browser None ex_page = Inr ex_noext_sim \<and>
   animation_frame ex_noext_browser ex_noext_sim = Inr ex_noext_framed \<and>
   splat_all [(1 / 4, 1 / 4, (1, 0, 0), None, None)] ex_noext_framed = Inr ex_noext_resplatted \<and>
   total_dye ex_noext_sim = (0, 0, 0, 0) \<and>
   total_dye ex_noext_resplatted = (0, 0, 0, 0) \<and>
   1 \<le> x_of (injected 2 2 [(1 / 4, 1 / 4, (1, 0, 0), None, None)]) \<and>
   total_dye ex_noext_resplatted \<noteq>
     vec4_add (vec4_scale (total_dye ex_noext_sim) 0.995)
       (injected 2 2 [(1 / 4, 1 / 4, (1, 0, 0), None, None)])"
proof -
  have wf0: "wf_sim ex_noext_sim" by (rule wf_sim_init[OF ex_noext_init])
  have c0: "\<not> color_buffer_float (gl ex_noext_sim)" by (simp add: ex_noext_sim_eq)
  have wf1: "wf_sim ex_noext_framed" by (rule wf_sim_animation_frame[OF wf0 ex_noext_frame])
  have c1: "\<not> color_buffer_float (gl ex_noext_framed)"
    using animation_frame_context[OF wf0 ex_noext_frame] c0 by simp
  have wf2: "wf_sim ex_noext_resplatted" by (rule wf_sim_splat_all[OF wf1 ex_noext_resplat])
  have c2: "\<not> color_buffer_float (gl ex_noext_resplatted)"
    using splat_all_context[OF ex_noext_resplat] c1 by simp
  note t0 = total_dye_without_extension[OF wf0 c0] and t2 = total_dye_without_extension[OF wf2 c2]
  have "x_of (vec4_add (vec4_scale (0, 0, 0, 0) 0.995)
          (injected 2 2 [(1 / 4, 1 / 4, (1, 0, 0), None, None)])) \<noteq> x_of (0, 0, 0, 0)"
    using ex_injected by simp
  then have "(0, 0, 0, 0) \<noteq> vec4_add (vec4_scale (0, 0, 0, 0) 0.995)
          (injected 2 2 [(1 / 4, 1 / 4, (1, 0, 0), None, None)])"
    by metis
  with ex_noext_init ex_noext_frame ex_noext_resplat t0 t2 ex_injected show ?thesis by simp
qed


lemma alloc_zero_all:
  assumes "alloc_fields g w h = (F, g')" "f \<in> set (field_fbos F)"
  shows "field_at g' f i j = store_fmt (tex_format (bound_texture g' (tex f))) (0, 0, 0, 0)"
proof -
  note p = wf_fields_parts[OF wf_alloc_fields[OF assms(1)]]
  from assms(2) zero_alloc_fields[OF assms(1), of i j]
    wf_fbo_texture(4)[OF p(1)] wf_fbo_texture(4)[OF p(2)] wf_fbo_texture(4)[OF p(3)]
    wf_fbo_texture(4)[OF p(4)] wf_fbo_texture(4)[OF p(5)] wf_fbo_texture(4)[OF p(6)]
    wf_fbo_texture(4)[OF p(7)]
  show ?thesis by (auto simp add: field_fbos_def)
qed

text \<open>
  Claim C4, as the code has it: after \<^verbatim>\<open>resize()\<close> the size of the handle is the
  requested one, \<open>max 2 \<lfloor>client size \<times> dpr\<rfloor>\<close> in each direction, and every field
  object and texture has that size. When the requested size differs from the current
  one, all fields are new and zero-filled; when it is the same, nothing is reallocated
  and the state, with the content of every field, is unchanged.
\<close>

theorem resize_reallocates_when_size_changes:
  assumes "reachable s"
  shows "\<exists>F. fbos (resize b s) = Some F \<and>
     width (resize b s) = max 2 \<lfloor>real_of_int (clientWidth b) * dpr s\<rfloor> \<and>
     height (resize b s) = max 2 \<lfloor>real_of_int (clientHeight b) * dpr s\<rfloor> \<and>
     (\<forall>f \<in> set (field_fbos F).
        fbo_w f = width (resize b s) \<and> fbo_h f = height (resize b s) \<and>
        tex_w (bound_texture (gl (resize b s)) (tex f)) = width (resize b s) \<and>
        tex_h (bound_texture (gl (resize b s)) (tex f)) = height (resize b s)) \<and>
     ((width (resize b s), height (resize b s)) \<noteq> (width s, height s) \<longrightarrow>
        (\<forall>f \<in> set (field_fbos F). \<forall>i j.
           field_at (gl (resize b s)) f i j =
           store_fmt (tex_format (bound_texture (gl (resize b s)) (tex f))) (0, 0, 0, 0))) \<and>
     ((width (resize b s), height (resize b s)) = (width s, height s) \<longrightarrow> resize b s = s)"
proof -
  from reachable_wf[OF assms] have wf: "wf_sim s" .
  define w where "w = max 2 \<lfloor>real_of_int (clientWidth b) * dpr s\<rfloor>"
  define h where "h = max 2 \<lfloor>real_of_int (clientHeight b) * dpr s\<rfloor>"
  from wf_sim_dims[OF wf_sim_resize[OF wf, of b]] obtain F where
    F: "fbos (resize b s) = Some F" and
    dims: "\<forall>f \<in> set (field_fbos F).
        fbo_w f = width (resize b s) \<and> fbo_h f = height (resize b s) \<and>
        tex_w (bound_texture (gl (resize b s)) (tex f)) = width (resize b s) \<and>
        tex_h (bound_texture (gl (resize b s)) (tex f)) = height (resize b s)"
    by auto
  show ?thesis
  proof (cases "w = width s \<and> h = height s")
    case True
    then have "resize b s = s"
      by (simp add: resize_def setSize_alloc Let_def w_def h_def)
    with True F dims show ?thesis
      by (auto simp add: w_def h_def)
  next
    case False
    obtain F0 g0 where al: "alloc_fields ((gl s)\<lparr>screen := (\<lambda>i j. (0, 0, 0, 0))\<rparr>) w h = (F0, g0)" by (cases "alloc_fields ((gl s)\<lparr>screen := (\<lambda>i j. (0, 0, 0, 0))\<rparr>) w h")
    from False have r: "resize b s = s\<lparr>width := w, height := h, canvas_size := (w, h),
                       fbos := Some F0, gl := g0\<rparr>"
      by (auto simp add: resize_def setSize_alloc Let_def w_def[symmetric] h_def[symmetric] al)
    from F r have FF: "F = F0" by simp
    have "\<forall>f \<in> set (field_fbos F). \<forall>i j.
           field_at (gl (resize b s)) f i j =
           store_fmt (tex_format (bound_texture (gl (resize b s)) (tex f))) (0, 0, 0, 0)"
      using alloc_zero_all[OF al] by (simp add: r FF)
    moreover have "width (resize b s) = w" "height (resize b s) = h" by (simp_all add: r)
    moreover from this False
    have "(width (resize b s), height (resize b s)) \<noteq> (width s, height s)" by auto
    ultimately show ?thesis using F dims
      by (auto simp add: w_def h_def)
  qed
qed

lemma ex_splatted_dye: "dye_at ex_splatted 0 0 = (1, 0, 0, 1)"
proof -
  have ij: "in_grid (width ex_sim) (height ex_sim) 0 0" by (simp add: ex_sim_facts in_grid_def)
  from splat_dye[OF reachable_wf[OF reachable_ex_sim] ex_sim_facts(8) ex_splat ij]
  show ?thesis
    by (simp add: init_fields_zero[OF ex_init] ex_sim_facts splat_stamp_def splat_falloff_def
        pixel_uv_def Let_def)
qed

text \<open>
  Claim C4 as stated fails: a resize to the size the handle already has keeps the dye
  of an earlier splat.
\<close>

theorem resize_same_size_keeps_dye:
  "resize ex_browser ex_splatted = ex_splatted \<and>
   dye_at (resize ex_browser ex_splatted) 0 0 = (1, 0, 0, 1)"
proof -
  have "resize ex_browser ex_splatted = ex_splatted"
    by (simp add: resize_def setSize_alloc Let_def splat_keeps[OF ex_splat] ex_sim_facts ex_browser_sel)
  with ex_splatted_dye show ?thesis by simp
qed

theorem resize_reallocates_when_size_changes_witness:
  "\<exists>F. fbos (resize (ex_browser\<lparr>clientWidth := 3\<rparr>) ex_sim) = Some F \<and>
     width (resize (ex_browser\<lparr>clientWidth := 3\<rparr>) ex_sim) = 3 \<and>
     height (resize (ex_browser\<lparr>clientWidth := 3\<rparr>) ex_sim) = 2 \<and>
     fbo_w (read_fbo (dye F)) = 3 \<and> fbo_h (read_fbo (dye F)) = 2 \<and>
     field_at (gl (resize (ex_browser\<lparr>clientWidth := 3\<rparr>) ex_sim)) (read_fbo (dye F)) 0 0 =
       store_fmt (tex_format (bound_texture (gl (resize (ex_browser\<lparr>clientWidth := 3\<rparr>) ex_sim))
          (tex (read_fbo (dye F))))) (0, 0, 0, 0)"
  using resize_reallocates_when_size_changes[OF reachable_ex_sim, of "ex_browser\<lparr>clientWidth := 3\<rparr>"]
  by (auto simp add: ex_sim_facts ex_browser_sel)

end
